theory Spec2Isabelle
  imports Complex_Main "HOL-Library.Monad_Syntax"
begin

section \<open>Single-precision floating point\<close>

text \<open>
  The C++ type \<^verbatim>\<open>float\<close> is IEEE 754 binary32, and an expression of floats is
  evaluated operation by operation in binary32, each result rounded to nearest with
  ties to even (the default rounding mode; no extended precision, no reassociation).
  A finite number is \<open>Finite s m e\<close>, standing for \<open>(-1)\<^sup>s * m * 2\<^sup>e\<close>; the two
  infinities and NaN are separate constructors. There is one NaN: payloads are not
  distinguished. An operation computes the exact dyadic result and rounds it once.
\<close>

datatype float32 = Finite bool nat int | Infinity bool | NaN

fun bit_length :: "nat \<Rightarrow> nat" where
  "bit_length n = (if n = 0 then 0 else Suc (bit_length (n div 2)))"

declare bit_length.simps [simp del]

text \<open>\<open>M / 2\<^sup>k\<close> rounded to the nearest integer, a tie going to the even one.\<close>

definition rne_shift :: "nat \<Rightarrow> nat \<Rightarrow> nat" where
  "rne_shift M k =
     (let q = M div 2 ^ k; r = M mod 2 ^ k
      in if 2 ^ k < 2 * r \<or> (2 * r = 2 ^ k \<and> odd q) then q + 1 else q)"

text \<open>
  \<open>fround s M E\<close> rounds the exact magnitude \<open>M * 2\<^sup>E\<close> with sign \<open>s\<close> to binary32:
  24 significant bits, least exponent \<open>-149\<close> (subnormal numbers and zero), greatest
  exponent \<open>104\<close>; a rounded result beyond the greatest finite number is an infinity.
  \<open>round_exponent\<close> is the exponent of the last bit kept, and \<open>round_mantissa\<close> the
  magnitude in units of that bit, which is exact when no bit is dropped.
\<close>

definition round_exponent :: "nat \<Rightarrow> int \<Rightarrow> int" where
  "round_exponent M E = max (E + int (bit_length M) - 24) (- 149)"

definition round_mantissa :: "nat \<Rightarrow> int \<Rightarrow> nat" where
  "round_mantissa M E =
     (let e = round_exponent M E
      in if e \<le> E then M * 2 ^ nat (E - e) else rne_shift M (nat (e - E)))"

definition fround :: "bool \<Rightarrow> nat \<Rightarrow> int \<Rightarrow> float32" where
  "fround s M E =
     (if M = 0 then Finite s 0 (- 149)
      else
        let e = round_exponent M E;
            q = round_mantissa M E;
            m = (if q = 2 ^ 24 then 2 ^ 23 else q);
            e' = (if q = 2 ^ 24 then e + 1 else e)
        in if 104 < e' then Infinity s else Finite s m e')"

definition signed :: "bool \<Rightarrow> nat \<Rightarrow> int" where
  "signed s k = (if s then - int k else int k)"

fun fsub :: "float32 \<Rightarrow> float32 \<Rightarrow> float32" where
  "fsub NaN b = NaN"
| "fsub (Infinity s) NaN = NaN"
| "fsub (Finite s m e) NaN = NaN"
| "fsub (Infinity s) (Infinity t) = (if s = t then NaN else Infinity s)"
| "fsub (Infinity s) (Finite t n f) = Infinity s"
| "fsub (Finite s m e) (Infinity t) = Infinity (\<not> t)"
| "fsub (Finite s m e) (Finite t n f) =
     (let E = min e f;
          d = signed s (m * 2 ^ nat (e - E)) - signed t (n * 2 ^ nat (f - E))
      in if d = 0 then Finite (s \<and> \<not> t) 0 (- 149)
         else fround (d < 0) (nat \<bar>d\<bar>) E)"

fun fmul :: "float32 \<Rightarrow> float32 \<Rightarrow> float32" where
  "fmul NaN b = NaN"
| "fmul (Infinity s) NaN = NaN"
| "fmul (Finite s m e) NaN = NaN"
| "fmul (Infinity s) (Infinity t) = Infinity (s \<noteq> t)"
| "fmul (Infinity s) (Finite t n f) = (if n = 0 then NaN else Infinity (s \<noteq> t))"
| "fmul (Finite s m e) (Infinity t) = (if m = 0 then NaN else Infinity (s \<noteq> t))"
| "fmul (Finite s m e) (Finite t n f) = fround (s \<noteq> t) (m * n) (e + f)"

text \<open>The literals \<^verbatim>\<open>10.0F\<close> and \<^verbatim>\<open>0.5F\<close>.\<close>

definition float_10 :: float32 where
  "float_10 = Finite False 10485760 (- 20)"

definition float_half :: float32 where
  "float_half = Finite False 8388608 (- 24)"

section \<open>Dense matrices and the store\<close>

text \<open>
  Float objects live in a store. An address is a cell of some coefficient array or a
  scalar variable; the output parameters of the evaluator are references, that is,
  addresses of either kind. An \<^verbatim>\<open>Eigen::MatrixXf\<close> is its storage: the start of
  the coefficient array and the two dimensions; coefficients are laid out column by
  column (Eigen's default order).
\<close>

datatype addr = Cell nat | Var nat

type_synonym memory = "addr \<Rightarrow> float32"

record MatrixXf =
  m_data :: nat
  m_rows :: nat
  m_cols :: nat

definition coeff_addr :: "MatrixXf \<Rightarrow> nat \<Rightarrow> nat \<Rightarrow> addr" where
  "coeff_addr M row col = Cell (m_data M + (row + col * m_rows M))"

text \<open>
  \<^verbatim>\<open>M(row, col)\<close>: the coefficient's address, or \<open>None\<close> when the index is out of
  range (an assertion failure in a debug build, undefined otherwise).
\<close>

definition coeff_ref :: "MatrixXf \<Rightarrow> int \<Rightarrow> int \<Rightarrow> addr option" where
  "coeff_ref M row col =
     (if 0 \<le> row \<and> row < int (m_rows M) \<and> 0 \<le> col \<and> col < int (m_cols M)
      then Some (coeff_addr M (nat row) (nat col)) else None)"

section \<open>The data term\<close>

text \<open>
  The evaluator reads the four coefficients, then assigns the three outputs in the
  order of the source; an index out of range leaves no result. The coordinates are C
  \<^verbatim>\<open>int\<close>s, of which only the comparison with the dimensions matters.
\<close>

definition data_term_at_location ::
  "MatrixXf \<Rightarrow> MatrixXf \<Rightarrow> int \<Rightarrow> int \<Rightarrow> MatrixXf \<Rightarrow> MatrixXf \<Rightarrow>
   addr \<Rightarrow> addr \<Rightarrow> addr \<Rightarrow> memory \<Rightarrow> memory option" where
  "data_term_at_location warped_live_field canonical_field x y
       live_gradient_x_field live_gradient_y_field
       data_gradient_x data_gradient_y local_energy_contribution mem =
     do {
       a_live \<leftarrow> coeff_ref warped_live_field y x;
       let live_sdf = mem a_live;
       a_canonical \<leftarrow> coeff_ref canonical_field y x;
       let canonical_sdf = mem a_canonical;
       let difference = fsub live_sdf canonical_sdf;
       let scaling_factor = float_10;
       a_gradient_x \<leftarrow> coeff_ref live_gradient_x_field y x;
       let gradient_x = mem a_gradient_x;
       a_gradient_y \<leftarrow> coeff_ref live_gradient_y_field y x;
       let gradient_y = mem a_gradient_y;
       let mem = mem(data_gradient_x := fmul (fmul difference gradient_x) scaling_factor);
       let mem = mem(data_gradient_y := fmul (fmul difference gradient_y) scaling_factor);
       let mem = mem(local_energy_contribution := fmul (fmul float_half difference) difference);
       Some mem
     }"

text \<open>
  The adapter. Its parameters are matrix objects of its own and its three floats are
  automatic variables, here \<open>Var 0\<close>, \<open>Var 1\<close> and \<open>Var 2\<close>; the returned tuple is the
  pair of the two-coefficient row vector and the energy.
\<close>

definition py_data_term_at_location ::
  "MatrixXf \<Rightarrow> MatrixXf \<Rightarrow> int \<Rightarrow> int \<Rightarrow> MatrixXf \<Rightarrow> MatrixXf \<Rightarrow>
   memory \<Rightarrow> ((float32 \<times> float32) \<times> float32) option" where
  "py_data_term_at_location warped_live_field canonical_field x y
       live_gradient_x_field live_gradient_y_field mem =
     do {
       let data_gradient_x = Var 0;
       let data_gradient_y = Var 1;
       let local_energy_contribution = Var 2;
       mem \<leftarrow> data_term_at_location warped_live_field canonical_field x y
               live_gradient_x_field live_gradient_y_field
               data_gradient_x data_gradient_y local_energy_contribution mem;
       let data_gradient = (mem data_gradient_x, mem data_gradient_y);
       Some (data_gradient, mem local_energy_contribution)
     }"

section \<open>Vocabulary of the statements\<close>

text \<open>
  The number a finite float stands for (and \<open>0\<close> for an infinity or NaN, which the
  statements below guard with \<open>is_finite\<close>).
\<close>

fun valof :: "float32 \<Rightarrow> real" where
  "valof (Finite s m e) = (if s then - 1 else 1) * real m * 2 powi e"
| "valof (Infinity s) = 0"
| "valof NaN = 0"

fun is_finite :: "float32 \<Rightarrow> bool" where
  "is_finite (Finite s m e) = True"
| "is_finite (Infinity s) = False"
| "is_finite NaN = False"

fun is_zero :: "float32 \<Rightarrow> bool" where
  "is_zero (Finite s m e) = (m = 0)"
| "is_zero (Infinity s) = False"
| "is_zero NaN = False"

fun fneg :: "float32 \<Rightarrow> float32" where
  "fneg (Finite s m e) = Finite (\<not> s) m e"
| "fneg (Infinity s) = Infinity (\<not> s)"
| "fneg NaN = NaN"

text \<open>
  The values of the datatype that are binary32 numbers: a finite one has a mantissa of
  at most 24 bits and an exponent in range, and is normalised (the mantissa has 24 bits
  unless the exponent is the least one).
\<close>

fun is_float32 :: "float32 \<Rightarrow> bool" where
  "is_float32 (Finite s m e) =
     (m < 2 ^ 24 \<and> - 149 \<le> e \<and> e \<le> 104 \<and> (2 ^ 23 \<le> m \<or> e = - 149))"
| "is_float32 (Infinity s) = True"
| "is_float32 NaN = True"

text \<open>
  The exact product of two finite floats does not underflow: it is zero, or at least
  \<open>2\<^sup>-\<^sup>1\<^sup>2\<^sup>6\<close>, the least normal number, in magnitude.
\<close>

fun no_underflow :: "float32 \<Rightarrow> float32 \<Rightarrow> bool" where
  "no_underflow (Finite s m e) (Finite t n f) =
     (m * n = 0 \<or> 2 powi (- 126) \<le> real (m * n) * 2 powi (e + f))"
| "no_underflow (Finite s m e) (Infinity t) = True"
| "no_underflow (Finite s m e) NaN = True"
| "no_underflow (Infinity s) b = True"
| "no_underflow NaN b = True"

text \<open>A float other than a nonzero subnormal number.\<close>

fun not_subnormal :: "float32 \<Rightarrow> bool" where
  "not_subnormal (Finite s m e) =
     (m = 0 \<or> (2 ^ 23 \<le> m \<and> m < 2 ^ 24 \<and> - 149 \<le> e \<and> e \<le> 104))"
| "not_subnormal (Infinity s) = True"
| "not_subnormal NaN = True"

text \<open>
  The comparison \<^verbatim>\<open>a == b\<close> of two floats: false when either is NaN, and true of
  the two zeros.
\<close>

fun feq :: "float32 \<Rightarrow> float32 \<Rightarrow> bool" where
  "feq NaN b = False"
| "feq (Infinity s) NaN = False"
| "feq (Finite s m e) NaN = False"
| "feq (Infinity s) (Infinity t) = (s = t)"
| "feq (Infinity s) (Finite t n f) = False"
| "feq (Finite s m e) (Infinity t) = False"
| "feq (Finite s m e) (Finite t n f) =
     (signed s (m * 2 ^ nat (e - min e f)) = signed t (n * 2 ^ nat (f - min e f)))"

text \<open>Two floats that are the same, or are both zero (of either sign).\<close>

definition same_number :: "float32 \<Rightarrow> float32 \<Rightarrow> bool" where
  "same_number a b \<longleftrightarrow> a = b \<or> (is_zero a \<and> is_zero b)"

text \<open>\<open>(x, y)\<close> indexes an element of \<open>M\<close>: row \<open>y\<close>, column \<open>x\<close>.\<close>

definition in_bounds :: "MatrixXf \<Rightarrow> int \<Rightarrow> int \<Rightarrow> bool" where
  "in_bounds M x y \<longleftrightarrow> 0 \<le> y \<and> y < int (m_rows M) \<and> 0 \<le> x \<and> x < int (m_cols M)"

text \<open>The value of the field \<open>M\<close> at row \<open>y\<close>, column \<open>x\<close>, in the store \<open>mem\<close>.\<close>

definition sample :: "memory \<Rightarrow> MatrixXf \<Rightarrow> int \<Rightarrow> int \<Rightarrow> float32" where
  "sample mem M x y = mem (coeff_addr M (nat y) (nat x))"

text \<open>The addresses of the coefficients of \<open>M\<close>.\<close>

definition cells :: "MatrixXf \<Rightarrow> addr set" where
  "cells M = {coeff_addr M row col | row col. row < m_rows M \<and> col < m_cols M}"

text \<open>The floats \<open>1.0\<close>, \<open>2.0\<close>, \<open>-1.0\<close>, \<open>-5.0\<close>, \<open>0.125\<close> and \<open>+0.0\<close>.\<close>

definition float_1 :: float32 where
  "float_1 = Finite False 8388608 (- 23)"

definition float_2 :: float32 where
  "float_2 = Finite False 8388608 (- 22)"

definition float_minus_1 :: float32 where
  "float_minus_1 = Finite True 8388608 (- 23)"

definition float_minus_5 :: float32 where
  "float_minus_5 = Finite True 10485760 (- 21)"

definition float_eighth :: float32 where
  "float_eighth = Finite False 8388608 (- 26)"

definition float_0 :: float32 where
  "float_0 = Finite False 0 (- 149)"

text \<open>
  An example input: four fields of two rows and three columns, stored one after the other,
  holding \<open>1.0\<close>, \<open>0.5\<close>, \<open>2.0\<close> and \<open>-1.0\<close> at row 1, column 2, and zero elsewhere.
\<close>

definition ex_field :: "nat \<Rightarrow> MatrixXf" where
  "ex_field k = \<lparr>m_data = 6 * k, m_rows = 2, m_cols = 3\<rparr>"

definition ex_mem :: memory where
  "ex_mem = (\<lambda>a. float_0)
     (Cell 5 := float_1, Cell 11 := float_half, Cell 17 := float_2, Cell 23 := float_minus_1)"

text \<open>
  A second example input of another shape (three rows, four columns) and with other values
  everywhere but at row 1, column 2.
\<close>

definition ex_wide :: "nat \<Rightarrow> MatrixXf" where
  "ex_wide k = \<lparr>m_data = 100 + 12 * k, m_rows = 3, m_cols = 4\<rparr>"

definition ex_mem_wide :: memory where
  "ex_mem_wide = (\<lambda>a. float_2)
     (Cell 107 := float_1, Cell 119 := float_half, Cell 131 := float_2, Cell 143 := float_minus_1)"

text \<open>
  Example inputs with equal live and canonical values at the location: both \<open>1.0\<close>
  with the finite gradient values of \<open>ex_mem\<close>, both \<open>1.0\<close> with an infinite x
  gradient, and both \<open>+\<infinity>\<close>.
\<close>

definition ex_mem_equal :: memory where
  "ex_mem_equal = ex_mem (Cell 11 := float_1)"

definition ex_mem_infinite_gradient :: memory where
  "ex_mem_infinite_gradient = ex_mem (Cell 11 := float_1, Cell 17 := Infinity False)"

definition ex_mem_equal_infinite :: memory where
  "ex_mem_equal_infinite = ex_mem (Cell 5 := Infinity False, Cell 11 := Infinity False)"

text \<open>
  Example inputs for overflow and underflow: live \<open>2\<^sup>1\<^sup>2\<^sup>7\<close> against canonical
  \<open>-2\<^sup>1\<^sup>2\<^sup>7\<close>; and live \<open>3 * 2\<^sup>-\<^sup>7\<^sup>5\<close> against canonical \<open>0\<close> with the x gradient
  \<open>2\<^sup>-\<^sup>7\<^sup>5\<close> and, doubled, \<open>2\<^sup>-\<^sup>7\<^sup>4\<close>. Then \<open>ex_mem\<close> with both gradient values
  doubled, live \<open>2\<^sup>-\<^sup>2\<^sup>0\<close> against canonical \<open>0\<close> with the x gradient \<open>2\<^sup>1\<^sup>2\<^sup>7\<close>, whose
  double is \<open>+\<infinity>\<close>, and live \<open>2\<^sup>6\<^sup>0\<close> against canonical \<open>0\<close> with the x gradient \<open>2\<^sup>6\<^sup>4\<close>
  and, doubled, \<open>2\<^sup>6\<^sup>5\<close>.
\<close>

definition ex_mem_huge :: memory where
  "ex_mem_huge = ex_mem (Cell 5 := Finite False 8388608 104, Cell 11 := Finite True 8388608 104)"

definition ex_mem_tiny :: memory where
  "ex_mem_tiny = (\<lambda>a. float_0)
     (Cell 5 := Finite False 12582912 (- 97), Cell 17 := Finite False 8388608 (- 98))"

definition ex_mem_tiny_doubled :: memory where
  "ex_mem_tiny_doubled = ex_mem_tiny (Cell 17 := Finite False 8388608 (- 97))"

definition ex_mem_doubled :: memory where
  "ex_mem_doubled = ex_mem
     (Cell 17 := Finite False 8388608 (- 21), Cell 23 := Finite True 8388608 (- 22))"

definition ex_mem_steep :: memory where
  "ex_mem_steep = (\<lambda>a. float_0)
     (Cell 5 := Finite False 8388608 (- 43), Cell 17 := Finite False 8388608 104)"

definition ex_mem_steep_doubled :: memory where
  "ex_mem_steep_doubled = ex_mem_steep (Cell 17 := Infinity False)"

definition ex_mem_large :: memory where
  "ex_mem_large = (\<lambda>a. float_0)
     (Cell 5 := Finite False 8388608 37, Cell 17 := Finite False 8388608 41)"

definition ex_mem_large_doubled :: memory where
  "ex_mem_large_doubled = ex_mem_large (Cell 17 := Finite False 8388608 42)"

section \<open>Evaluation rules\<close>

named_theorems float_eval
named_theorems model_eval

lemma bit_length_0 [simp]: "bit_length 0 = 0"
  by (simp add: bit_length.simps)

lemma bit_length_Suc_0 [simp]: "bit_length (Suc 0) = Suc 0"
  by (simp add: bit_length.simps)

lemma bit_length_Bit0 [simp]:
  "bit_length (numeral (Num.Bit0 n)) = Suc (bit_length (numeral n))"
  by (subst bit_length.simps) simp

lemma bit_length_Bit1 [simp]:
  "bit_length (numeral (Num.Bit1 n)) = Suc (bit_length (numeral n))"
  by (subst bit_length.simps) simp

lemmas [float_eval] =
  fround_def round_exponent_def round_mantissa_def rne_shift_def signed_def Let_def
  float_10_def float_half_def float_1_def float_2_def float_minus_1_def float_minus_5_def
  float_eighth_def float_0_def

lemmas [model_eval] =
  in_bounds_def sample_def coeff_addr_def ex_field_def ex_mem_def ex_wide_def ex_mem_wide_def
  ex_mem_equal_def ex_mem_infinite_gradient_def ex_mem_huge_def ex_mem_tiny_def
  ex_mem_tiny_doubled_def ex_mem_doubled_def ex_mem_equal_infinite_def ex_mem_steep_def
  ex_mem_steep_doubled_def ex_mem_large_def ex_mem_large_doubled_def

section \<open>The evaluator in closed form\<close>

lemma coeff_ref_in_bounds:
  "in_bounds M x y \<Longrightarrow> coeff_ref M y x = Some (coeff_addr M (nat y) (nat x))"
  by (simp add: coeff_ref_def in_bounds_def)

lemma coeff_ref_out_of_bounds:
  "\<not> in_bounds M x y \<Longrightarrow> coeff_ref M y x = None"
  by (simp add: coeff_ref_def in_bounds_def)

lemma data_term_at_location_in_bounds:
  assumes "in_bounds warped_live_field x y" and "in_bounds canonical_field x y"
    and "in_bounds live_gradient_x_field x y" and "in_bounds live_gradient_y_field x y"
  shows "data_term_at_location warped_live_field canonical_field x y
           live_gradient_x_field live_gradient_y_field
           data_gradient_x data_gradient_y local_energy_contribution mem =
         Some (mem
           (data_gradient_x :=
              fmul (fmul (fsub (sample mem warped_live_field x y) (sample mem canonical_field x y))
                         (sample mem live_gradient_x_field x y)) float_10,
            data_gradient_y :=
              fmul (fmul (fsub (sample mem warped_live_field x y) (sample mem canonical_field x y))
                         (sample mem live_gradient_y_field x y)) float_10,
            local_energy_contribution :=
              fmul (fmul float_half
                         (fsub (sample mem warped_live_field x y) (sample mem canonical_field x y)))
                   (fsub (sample mem warped_live_field x y) (sample mem canonical_field x y))))"
  using assms
  by (simp add: data_term_at_location_def coeff_ref_in_bounds sample_def Let_def)

lemma data_term_at_location_out_of_bounds:
  assumes "\<not> (in_bounds warped_live_field x y \<and> in_bounds canonical_field x y \<and>
              in_bounds live_gradient_x_field x y \<and> in_bounds live_gradient_y_field x y)"
  shows "data_term_at_location warped_live_field canonical_field x y
           live_gradient_x_field live_gradient_y_field
           data_gradient_x data_gradient_y local_energy_contribution mem = None"
  using assms
  by (cases "in_bounds warped_live_field x y"; cases "in_bounds canonical_field x y";
      cases "in_bounds live_gradient_x_field x y"; cases "in_bounds live_gradient_y_field x y")
     (simp_all add: data_term_at_location_def coeff_ref_in_bounds coeff_ref_out_of_bounds Let_def)

section \<open>The formulas\<close>

text \<open>
  Claim C1. For fields and a location \<open>(x, y)\<close> in bounds of all four, the call
  succeeds and leaves in the slot \<open>data_gradient_x\<close> the float
  \<open>(live - canonical) * grad_x * 10.0\<close> and in \<open>data_gradient_y\<close> the float
  \<open>(live - canonical) * grad_y * 10.0\<close>, where \<open>live\<close>, \<open>canonical\<close>, \<open>grad_x\<close> and
  \<open>grad_y\<close> are the four fields' values at row \<open>y\<close>, column \<open>x\<close>, the operations are
  those of binary32 taken from left to right, and the three output slots are three
  different objects. The fields need not have the same shape.
\<close>

theorem data_gradient_formula:
  assumes "in_bounds warped_live_field x y" and "in_bounds canonical_field x y"
    and "in_bounds live_gradient_x_field x y" and "in_bounds live_gradient_y_field x y"
    and "distinct [data_gradient_x, data_gradient_y, local_energy_contribution]"
  shows "\<exists>mem'.
           data_term_at_location warped_live_field canonical_field x y
             live_gradient_x_field live_gradient_y_field
             data_gradient_x data_gradient_y local_energy_contribution mem = Some mem' \<and>
           mem' data_gradient_x =
             fmul (fmul (fsub (sample mem warped_live_field x y) (sample mem canonical_field x y))
                        (sample mem live_gradient_x_field x y)) float_10 \<and>
           mem' data_gradient_y =
             fmul (fmul (fsub (sample mem warped_live_field x y) (sample mem canonical_field x y))
                        (sample mem live_gradient_y_field x y)) float_10"
  using assms by (auto simp add: data_term_at_location_in_bounds)

theorem data_gradient_formula_witness:
  "in_bounds (ex_field 0) 2 1 \<and> in_bounds (ex_field 1) 2 1 \<and>
   in_bounds (ex_field 2) 2 1 \<and> in_bounds (ex_field 3) 2 1 \<and>
   distinct [Var 7, Var 8, Var 9] \<and>
   (\<exists>mem'.
      data_term_at_location (ex_field 0) (ex_field 1) 2 1 (ex_field 2) (ex_field 3)
        (Var 7) (Var 8) (Var 9) ex_mem = Some mem' \<and>
      mem' (Var 7) = fmul (fmul (fsub float_1 float_half) float_2) float_10 \<and>
      mem' (Var 8) = fmul (fmul (fsub float_1 float_half) float_minus_1) float_10)"
  using data_gradient_formula [of "ex_field 0" 2 1 "ex_field 1" "ex_field 2" "ex_field 3"
      "Var 7" "Var 8" "Var 9" ex_mem]
  by (simp add: model_eval)

section \<open>The adapter\<close>

text \<open>
  Claim C3. The adapter returns what the evaluator leaves in three different output
  slots, as the pair of the vector \<open>(data_gradient_x, data_gradient_y)\<close> and
  \<open>local_energy_contribution\<close>, and nothing else: on every input, also where the
  evaluator has no result, the adapter's result is the evaluator's, repackaged.
\<close>

theorem py_data_term_at_location_repackages:
  assumes "distinct [data_gradient_x, data_gradient_y, local_energy_contribution]"
  shows "py_data_term_at_location warped_live_field canonical_field x y
           live_gradient_x_field live_gradient_y_field mem =
         map_option
           (\<lambda>mem'. ((mem' data_gradient_x, mem' data_gradient_y), mem' local_energy_contribution))
           (data_term_at_location warped_live_field canonical_field x y
              live_gradient_x_field live_gradient_y_field
              data_gradient_x data_gradient_y local_energy_contribution mem)"
proof (cases "in_bounds warped_live_field x y \<and> in_bounds canonical_field x y \<and>
              in_bounds live_gradient_x_field x y \<and> in_bounds live_gradient_y_field x y")
  case True
  with assms show ?thesis
    by (auto simp add: py_data_term_at_location_def data_term_at_location_in_bounds)
next
  case False
  then show ?thesis
    by (simp add: py_data_term_at_location_def data_term_at_location_out_of_bounds)
qed

theorem py_data_term_at_location_repackages_witness:
  "distinct [Var 7, Var 8, Var 9] \<and>
   py_data_term_at_location (ex_field 0) (ex_field 1) 2 1 (ex_field 2) (ex_field 3) ex_mem =
     map_option (\<lambda>mem'. ((mem' (Var 7), mem' (Var 8)), mem' (Var 9)))
       (data_term_at_location (ex_field 0) (ex_field 1) 2 1 (ex_field 2) (ex_field 3)
          (Var 7) (Var 8) (Var 9) ex_mem) \<and>
   py_data_term_at_location (ex_field 0) (ex_field 1) 2 1 (ex_field 2) (ex_field 3) ex_mem =
     Some ((float_10, float_minus_5), float_eighth)"
  using py_data_term_at_location_repackages [of "Var 7" "Var 8" "Var 9"
      "ex_field 0" "ex_field 1" 2 1 "ex_field 2" "ex_field 3" ex_mem]
  by (simp add: py_data_term_at_location_def data_term_at_location_def coeff_ref_def
      model_eval float_eval)

section \<open>A worked example\<close>

lemma float_literals:
  "valof float_1 = 1 \<and> valof float_half = 1 / 2 \<and> valof float_2 = 2 \<and>
   valof float_minus_1 = - 1 \<and> valof float_10 = 10 \<and> valof float_minus_5 = - 5 \<and>
   valof float_eighth = 1 / 8 \<and> valof float_0 = 0"
  by (simp add: float_eval power_int_minus)

text \<open>
  Claim C8. Where the four fields hold \<open>1.0\<close>, \<open>0.5\<close>, \<open>2.0\<close> and \<open>-1.0\<close> at the
  location, the evaluator leaves \<open>10.0\<close>, \<open>-5.0\<close> and \<open>0.125\<close> in its three (different)
  output slots, and the adapter returns the vector \<open>(10.0, -5.0)\<close> and the scalar \<open>0.125\<close>.
\<close>

theorem concrete_scenario:
  assumes "in_bounds warped_live_field x y" and "in_bounds canonical_field x y"
    and "in_bounds live_gradient_x_field x y" and "in_bounds live_gradient_y_field x y"
    and "sample mem warped_live_field x y = float_1"
    and "sample mem canonical_field x y = float_half"
    and "sample mem live_gradient_x_field x y = float_2"
    and "sample mem live_gradient_y_field x y = float_minus_1"
    and "distinct [data_gradient_x, data_gradient_y, local_energy_contribution]"
  shows "\<exists>mem'.
           data_term_at_location warped_live_field canonical_field x y
             live_gradient_x_field live_gradient_y_field
             data_gradient_x data_gradient_y local_energy_contribution mem = Some mem' \<and>
           mem' data_gradient_x = float_10 \<and> valof (mem' data_gradient_x) = 10 \<and>
           mem' data_gradient_y = float_minus_5 \<and> valof (mem' data_gradient_y) = - 5 \<and>
           mem' local_energy_contribution = float_eighth \<and>
           valof (mem' local_energy_contribution) = 1 / 8 \<and>
           py_data_term_at_location warped_live_field canonical_field x y
             live_gradient_x_field live_gradient_y_field mem =
             Some ((float_10, float_minus_5), float_eighth)"
proof -
  have gx: "fmul (fmul (fsub float_1 float_half) float_2) float_10 = float_10"
    by (simp add: float_eval)
  have gy: "fmul (fmul (fsub float_1 float_half) float_minus_1) float_10 = float_minus_5"
    by (simp add: float_eval)
  have en: "fmul (fmul float_half (fsub float_1 float_half)) (fsub float_1 float_half) = float_eighth"
    by (simp add: float_eval)
  show ?thesis
    using assms gx gy en float_literals
    by (auto simp add: py_data_term_at_location_def data_term_at_location_in_bounds)
qed

theorem concrete_scenario_witness:
  "in_bounds (ex_field 0) 2 1 \<and> in_bounds (ex_field 1) 2 1 \<and>
   in_bounds (ex_field 2) 2 1 \<and> in_bounds (ex_field 3) 2 1 \<and>
   sample ex_mem (ex_field 0) 2 1 = float_1 \<and> sample ex_mem (ex_field 1) 2 1 = float_half \<and>
   sample ex_mem (ex_field 2) 2 1 = float_2 \<and> sample ex_mem (ex_field 3) 2 1 = float_minus_1 \<and>
   distinct [Var 7, Var 8, Var 9] \<and>
   (\<exists>mem'.
      data_term_at_location (ex_field 0) (ex_field 1) 2 1 (ex_field 2) (ex_field 3)
        (Var 7) (Var 8) (Var 9) ex_mem = Some mem' \<and>
      mem' (Var 7) = float_10 \<and> mem' (Var 8) = float_minus_5 \<and> mem' (Var 9) = float_eighth) \<and>
   py_data_term_at_location (ex_field 0) (ex_field 1) 2 1 (ex_field 2) (ex_field 3) ex_mem =
     Some ((float_10, float_minus_5), float_eighth)"
  using concrete_scenario [of "ex_field 0" 2 1 "ex_field 1" "ex_field 2" "ex_field 3"
      ex_mem "Var 7" "Var 8" "Var 9"]
  by (auto simp add: model_eval)

section \<open>Frame and dependence\<close>

text \<open>
  Claim C9. A call in bounds succeeds; it changes the store at the three output slots
  only; where no output slot is a coefficient of a field, every coefficient of the four
  fields is as before; and the three values left in the slots are determined by the
  fields and the location: from any other store holding the same four fields the call
  leaves the same three values.
\<close>

theorem data_term_at_location_frame:
  assumes "in_bounds warped_live_field x y" and "in_bounds canonical_field x y"
    and "in_bounds live_gradient_x_field x y" and "in_bounds live_gradient_y_field x y"
  shows "\<exists>mem'.
           data_term_at_location warped_live_field canonical_field x y
             live_gradient_x_field live_gradient_y_field
             data_gradient_x data_gradient_y local_energy_contribution mem = Some mem' \<and>
           (\<forall>a. a \<notin> {data_gradient_x, data_gradient_y, local_energy_contribution} \<longrightarrow>
                mem' a = mem a) \<and>
           ({data_gradient_x, data_gradient_y, local_energy_contribution} \<inter>
              (cells warped_live_field \<union> cells canonical_field \<union>
               cells live_gradient_x_field \<union> cells live_gradient_y_field) = {} \<longrightarrow>
            (\<forall>a \<in> cells warped_live_field \<union> cells canonical_field \<union>
                  cells live_gradient_x_field \<union> cells live_gradient_y_field. mem' a = mem a)) \<and>
           (\<forall>mem2.
              (\<forall>a \<in> cells warped_live_field \<union> cells canonical_field \<union>
                    cells live_gradient_x_field \<union> cells live_gradient_y_field. mem2 a = mem a) \<longrightarrow>
              (\<exists>mem2'.
                 data_term_at_location warped_live_field canonical_field x y
                   live_gradient_x_field live_gradient_y_field
                   data_gradient_x data_gradient_y local_energy_contribution mem2 = Some mem2' \<and>
                 mem2' data_gradient_x = mem' data_gradient_x \<and>
                 mem2' data_gradient_y = mem' data_gradient_y \<and>
                 mem2' local_energy_contribution = mem' local_energy_contribution))"
proof -
  have same: "sample mem2 M x y = sample mem M x y"
    if "in_bounds M x y" and "\<forall>a \<in> cells M. mem2 a = mem a" for mem2 M
  proof -
    from that(1) have "coeff_addr M (nat y) (nat x) \<in> cells M"
      unfolding cells_def in_bounds_def by (intro CollectI exI [of _ "nat y"] exI [of _ "nat x"]) auto
    with that(2) show ?thesis by (simp add: sample_def)
  qed
  let ?fields = "cells warped_live_field \<union> cells canonical_field \<union>
      cells live_gradient_x_field \<union> cells live_gradient_y_field"
  let ?slots = "{data_gradient_x, data_gradient_y, local_energy_contribution}"
  let ?d = "\<lambda>m. fsub (sample m warped_live_field x y) (sample m canonical_field x y)"
  let ?gx = "\<lambda>m. fmul (fmul (?d m) (sample m live_gradient_x_field x y)) float_10"
  let ?gy = "\<lambda>m. fmul (fmul (?d m) (sample m live_gradient_y_field x y)) float_10"
  let ?en = "\<lambda>m. fmul (fmul float_half (?d m)) (?d m)"
  let ?run = "\<lambda>m. m(data_gradient_x := ?gx m, data_gradient_y := ?gy m,
      local_energy_contribution := ?en m)"
  have run: "data_term_at_location warped_live_field canonical_field x y
      live_gradient_x_field live_gradient_y_field
      data_gradient_x data_gradient_y local_energy_contribution m = Some (?run m)" for m
    by (rule data_term_at_location_in_bounds [OF assms])
  have untouched: "\<forall>a. a \<notin> ?slots \<longrightarrow> ?run mem a = mem a"
    by simp
  have fields: "?slots \<inter> ?fields = {} \<longrightarrow> (\<forall>a \<in> ?fields. ?run mem a = mem a)"
  proof (intro impI ballI)
    fix a
    assume "?slots \<inter> ?fields = {}" and "a \<in> ?fields"
    then have "a \<notin> ?slots" by blast
    with untouched show "?run mem a = mem a" by blast
  qed
  have pure: "\<forall>mem2. (\<forall>a \<in> ?fields. mem2 a = mem a) \<longrightarrow>
      (\<exists>mem2'.
         data_term_at_location warped_live_field canonical_field x y
           live_gradient_x_field live_gradient_y_field
           data_gradient_x data_gradient_y local_energy_contribution mem2 = Some mem2' \<and>
         mem2' data_gradient_x = ?run mem data_gradient_x \<and>
         mem2' data_gradient_y = ?run mem data_gradient_y \<and>
         mem2' local_energy_contribution = ?run mem local_energy_contribution)"
  proof (intro allI impI)
    fix mem2
    assume agree: "\<forall>a \<in> ?fields. mem2 a = mem a"
    have "sample mem2 warped_live_field x y = sample mem warped_live_field x y"
      by (rule same [OF assms(1)]) (use agree in blast)
    moreover have "sample mem2 canonical_field x y = sample mem canonical_field x y"
      by (rule same [OF assms(2)]) (use agree in blast)
    moreover have "sample mem2 live_gradient_x_field x y = sample mem live_gradient_x_field x y"
      by (rule same [OF assms(3)]) (use agree in blast)
    moreover have "sample mem2 live_gradient_y_field x y = sample mem live_gradient_y_field x y"
      by (rule same [OF assms(4)]) (use agree in blast)
    ultimately have "?gx mem2 = ?gx mem" and "?gy mem2 = ?gy mem" and "?en mem2 = ?en mem"
      by simp_all
    then have "?run mem2 data_gradient_x = ?run mem data_gradient_x"
      and "?run mem2 data_gradient_y = ?run mem data_gradient_y"
      and "?run mem2 local_energy_contribution = ?run mem local_energy_contribution"
      by simp_all
    with run [of mem2] show "\<exists>mem2'.
         data_term_at_location warped_live_field canonical_field x y
           live_gradient_x_field live_gradient_y_field
           data_gradient_x data_gradient_y local_energy_contribution mem2 = Some mem2' \<and>
         mem2' data_gradient_x = ?run mem data_gradient_x \<and>
         mem2' data_gradient_y = ?run mem data_gradient_y \<and>
         mem2' local_energy_contribution = ?run mem local_energy_contribution"
      by blast
  qed
  from run [of mem] untouched fields pure show ?thesis
    by blast
qed

theorem data_term_at_location_frame_witness:
  "in_bounds (ex_field 0) 2 1 \<and> in_bounds (ex_field 1) 2 1 \<and>
   in_bounds (ex_field 2) 2 1 \<and> in_bounds (ex_field 3) 2 1 \<and>
   {Var 7, Var 8, Var 9} \<inter>
     (cells (ex_field 0) \<union> cells (ex_field 1) \<union> cells (ex_field 2) \<union> cells (ex_field 3)) = {} \<and>
   Cell 5 \<notin> {Var 7, Var 8, Var 9} \<and> Cell 5 \<in> cells (ex_field 0) \<and>
   (\<exists>mem'.
      data_term_at_location (ex_field 0) (ex_field 1) 2 1 (ex_field 2) (ex_field 3)
        (Var 7) (Var 8) (Var 9) ex_mem = Some mem' \<and>
      mem' (Cell 5) = ex_mem (Cell 5) \<and>
      (\<forall>a \<in> cells (ex_field 0) \<union> cells (ex_field 1) \<union> cells (ex_field 2) \<union> cells (ex_field 3).
         mem' a = ex_mem a) \<and>
      (\<exists>mem2'.
         data_term_at_location (ex_field 0) (ex_field 1) 2 1 (ex_field 2) (ex_field 3)
           (Var 7) (Var 8) (Var 9) (ex_mem (Var 7 := NaN, Var 1 := float_2)) = Some mem2' \<and>
         mem2' (Var 7) = mem' (Var 7) \<and> mem2' (Var 8) = mem' (Var 8) \<and>
         mem2' (Var 9) = mem' (Var 9)))"
proof -
  have disj: "{Var 7, Var 8, Var 9} \<inter>
     (cells (ex_field 0) \<union> cells (ex_field 1) \<union> cells (ex_field 2) \<union> cells (ex_field 3)) = {}"
    by (auto simp add: cells_def coeff_addr_def)
  have cell: "Cell 5 \<in> cells (ex_field 0)"
    unfolding cells_def by (intro CollectI exI [of _ 1] exI [of _ 2]) (simp add: model_eval)
  have other: "\<forall>a \<in> cells (ex_field 0) \<union> cells (ex_field 1) \<union> cells (ex_field 2) \<union> cells (ex_field 3).
      (ex_mem (Var 7 := NaN, Var 1 := float_2)) a = ex_mem a"
    by (auto simp add: cells_def coeff_addr_def)
  have inb: "in_bounds (ex_field 0) 2 1" "in_bounds (ex_field 1) 2 1"
    "in_bounds (ex_field 2) 2 1" "in_bounds (ex_field 3) 2 1"
    by (simp_all add: model_eval)
  from data_term_at_location_frame [OF inb, of "Var 7" "Var 8" "Var 9" ex_mem]
  obtain mem' where m:
    "data_term_at_location (ex_field 0) (ex_field 1) 2 1 (ex_field 2) (ex_field 3)
        (Var 7) (Var 8) (Var 9) ex_mem = Some mem'"
    "\<forall>a. a \<notin> {Var 7, Var 8, Var 9} \<longrightarrow> mem' a = ex_mem a"
    "{Var 7, Var 8, Var 9} \<inter>
       (cells (ex_field 0) \<union> cells (ex_field 1) \<union> cells (ex_field 2) \<union> cells (ex_field 3)) = {} \<longrightarrow>
     (\<forall>a \<in> cells (ex_field 0) \<union> cells (ex_field 1) \<union> cells (ex_field 2) \<union> cells (ex_field 3).
        mem' a = ex_mem a)"
    "\<forall>mem2.
       (\<forall>a \<in> cells (ex_field 0) \<union> cells (ex_field 1) \<union> cells (ex_field 2) \<union> cells (ex_field 3).
          mem2 a = ex_mem a) \<longrightarrow>
       (\<exists>mem2'.
          data_term_at_location (ex_field 0) (ex_field 1) 2 1 (ex_field 2) (ex_field 3)
            (Var 7) (Var 8) (Var 9) mem2 = Some mem2' \<and>
          mem2' (Var 7) = mem' (Var 7) \<and> mem2' (Var 8) = mem' (Var 8) \<and>
          mem2' (Var 9) = mem' (Var 9))"
    by blast
  from m(2) have "mem' (Cell 5) = ex_mem (Cell 5)" by simp
  moreover from m(3) disj
  have "\<forall>a \<in> cells (ex_field 0) \<union> cells (ex_field 1) \<union> cells (ex_field 2) \<union> cells (ex_field 3).
      mem' a = ex_mem a" by blast
  moreover from m(4) other
  have "\<exists>mem2'.
      data_term_at_location (ex_field 0) (ex_field 1) 2 1 (ex_field 2) (ex_field 3)
        (Var 7) (Var 8) (Var 9) (ex_mem (Var 7 := NaN, Var 1 := float_2)) = Some mem2' \<and>
      mem2' (Var 7) = mem' (Var 7) \<and> mem2' (Var 8) = mem' (Var 8) \<and>
      mem2' (Var 9) = mem' (Var 9)" by blast
  ultimately show ?thesis
    using inb disj cell m(1) by simp
qed

text \<open>
  Claim C10. Two inputs, of any shapes and with any other contents, whose fields hold
  the same four values at the location give the same three outputs, from the
  evaluator (in three different slots) and so from the adapter.
\<close>

theorem data_term_depends_on_samples_only:
  assumes "in_bounds warped_live_field x y" and "in_bounds canonical_field x y"
    and "in_bounds live_gradient_x_field x y" and "in_bounds live_gradient_y_field x y"
    and "in_bounds warped_live_field2 x y" and "in_bounds canonical_field2 x y"
    and "in_bounds live_gradient_x_field2 x y" and "in_bounds live_gradient_y_field2 x y"
    and "sample mem2 warped_live_field2 x y = sample mem warped_live_field x y"
    and "sample mem2 canonical_field2 x y = sample mem canonical_field x y"
    and "sample mem2 live_gradient_x_field2 x y = sample mem live_gradient_x_field x y"
    and "sample mem2 live_gradient_y_field2 x y = sample mem live_gradient_y_field x y"
    and "distinct [data_gradient_x, data_gradient_y, local_energy_contribution]"
  shows "\<exists>mem' mem2'.
           data_term_at_location warped_live_field canonical_field x y
             live_gradient_x_field live_gradient_y_field
             data_gradient_x data_gradient_y local_energy_contribution mem = Some mem' \<and>
           data_term_at_location warped_live_field2 canonical_field2 x y
             live_gradient_x_field2 live_gradient_y_field2
             data_gradient_x data_gradient_y local_energy_contribution mem2 = Some mem2' \<and>
           mem2' data_gradient_x = mem' data_gradient_x \<and>
           mem2' data_gradient_y = mem' data_gradient_y \<and>
           mem2' local_energy_contribution = mem' local_energy_contribution \<and>
           py_data_term_at_location warped_live_field2 canonical_field2 x y
             live_gradient_x_field2 live_gradient_y_field2 mem2 =
           py_data_term_at_location warped_live_field canonical_field x y
             live_gradient_x_field live_gradient_y_field mem"
  using assms
  by (auto simp add: py_data_term_at_location_def data_term_at_location_in_bounds)

theorem data_term_depends_on_samples_only_witness:
  "in_bounds (ex_field 0) 2 1 \<and> in_bounds (ex_field 1) 2 1 \<and>
   in_bounds (ex_field 2) 2 1 \<and> in_bounds (ex_field 3) 2 1 \<and>
   in_bounds (ex_wide 0) 2 1 \<and> in_bounds (ex_wide 1) 2 1 \<and>
   in_bounds (ex_wide 2) 2 1 \<and> in_bounds (ex_wide 3) 2 1 \<and>
   sample ex_mem_wide (ex_wide 0) 2 1 = sample ex_mem (ex_field 0) 2 1 \<and>
   sample ex_mem_wide (ex_wide 1) 2 1 = sample ex_mem (ex_field 1) 2 1 \<and>
   sample ex_mem_wide (ex_wide 2) 2 1 = sample ex_mem (ex_field 2) 2 1 \<and>
   sample ex_mem_wide (ex_wide 3) 2 1 = sample ex_mem (ex_field 3) 2 1 \<and>
   sample ex_mem_wide (ex_wide 0) 0 0 \<noteq> sample ex_mem (ex_field 0) 0 0 \<and>
   distinct [Var 7, Var 8, Var 9] \<and>
   (\<exists>mem' mem2'.
      data_term_at_location (ex_field 0) (ex_field 1) 2 1 (ex_field 2) (ex_field 3)
        (Var 7) (Var 8) (Var 9) ex_mem = Some mem' \<and>
      data_term_at_location (ex_wide 0) (ex_wide 1) 2 1 (ex_wide 2) (ex_wide 3)
        (Var 7) (Var 8) (Var 9) ex_mem_wide = Some mem2' \<and>
      mem2' (Var 7) = mem' (Var 7) \<and> mem2' (Var 8) = mem' (Var 8) \<and>
      mem2' (Var 9) = mem' (Var 9)) \<and>
   py_data_term_at_location (ex_wide 0) (ex_wide 1) 2 1 (ex_wide 2) (ex_wide 3) ex_mem_wide =
   py_data_term_at_location (ex_field 0) (ex_field 1) 2 1 (ex_field 2) (ex_field 3) ex_mem"
  using data_term_depends_on_samples_only [of "ex_field 0" 2 1 "ex_field 1" "ex_field 2"
      "ex_field 3" "ex_wide 0" "ex_wide 1" "ex_wide 2" "ex_wide 3" ex_mem_wide ex_mem
      "Var 7" "Var 8" "Var 9"]
  by (auto simp add: model_eval float_eval)

section \<open>Signs and zeros\<close>

lemma fround_zero [simp]: "fround s 0 E = Finite s 0 (- 149)"
  by (simp add: fround_def)

lemma fround_neg: "fround (\<not> s) M E = fneg (fround s M E)"
  by (simp add: fround_def Let_def)

lemma fmul_fneg_left: "fmul (fneg a) b = fneg (fmul a b)"
  by (cases a; cases b) (simp_all add: fround_neg [symmetric])

lemma fmul_fneg_right: "fmul a (fneg b) = fneg (fmul a b)"
  by (cases a; cases b) (simp_all add: fround_neg [symmetric])

lemma is_zero_fneg [simp]: "is_zero (fneg a) = is_zero a"
  by (cases a) simp_all

lemma fmul_zero_left: "is_zero z \<Longrightarrow> is_finite g \<Longrightarrow> is_zero (fmul z g)"
  by (cases z; cases g) simp_all

lemma fmul_zero_left_nonfinite: "is_zero z \<Longrightarrow> \<not> is_finite g \<Longrightarrow> fmul z g = NaN"
  by (cases z; cases g) simp_all

lemma fmul_zero_float_10: "is_zero p \<Longrightarrow> is_zero (fmul p float_10)"
  by (cases p) (simp_all add: float_10_def)

lemma energy_of_zero:
  "is_zero d \<Longrightarrow> fmul (fmul float_half d) d = float_0"
  by (cases d) (simp_all add: float_half_def float_0_def)

lemma fsub_feq_finite:
  "feq a b \<Longrightarrow> is_finite a \<Longrightarrow> is_zero (fsub a b) \<and> is_zero (fsub b a)"
  by (cases a; cases b) (simp_all add: Let_def min.commute)

lemma fsub_feq_infinite:
  "feq a b \<Longrightarrow> \<not> is_finite a \<Longrightarrow> fsub a b = NaN \<and> fsub b a = NaN"
  by (cases a; cases b) simp_all

lemma fsub_swap:
  "\<not> feq a b \<Longrightarrow> fsub b a = fneg (fsub a b)"
proof (cases a; cases b)
  fix s m e t n f
  assume ab: "a = Finite s m e" "b = Finite t n f" and ne: "\<not> feq a b"
  let ?A = "signed s (m * 2 ^ nat (e - min e f))"
  let ?B = "signed t (n * 2 ^ nat (f - min e f))"
  from ne ab have d: "?A - ?B \<noteq> 0"
    by simp
  then have d': "?B - ?A \<noteq> 0"
    by simp
  have lt: "(?B - ?A < 0) = (\<not> (?A - ?B < 0))"
    using d by linarith
  have ab_abs: "nat \<bar>?B - ?A\<bar> = nat \<bar>?A - ?B\<bar>"
    by (simp add: abs_minus_commute)
  show ?thesis
    unfolding ab fsub.simps Let_def min.commute [of f e]
    using d d' by (simp only: if_False lt ab_abs fround_neg)
qed auto

lemma fneg_fneg [simp]: "fneg (fneg a) = a"
  by (cases a) simp_all

lemma gradient_swap_exact:
  "\<not> feq a b \<Longrightarrow>
   fmul (fmul (fsub b a) g) float_10 = fneg (fmul (fmul (fsub a b) g) float_10)"
  by (simp add: fsub_swap fmul_fneg_left)

lemma gradient_swap:
  "same_number (fmul (fmul (fsub b a) g) float_10) (fneg (fmul (fmul (fsub a b) g) float_10))"
proof (cases "feq a b")
  case False
  then show ?thesis
    by (simp add: gradient_swap_exact same_number_def)
next
  case eq: True
  show ?thesis
  proof (cases "is_finite a")
    case fin: True
    from fsub_feq_finite [OF eq fin] have z: "is_zero (fsub a b)" "is_zero (fsub b a)"
      by simp_all
    show ?thesis
    proof (cases "is_finite g")
      case True
      with z show ?thesis
        by (simp add: same_number_def fmul_zero_left fmul_zero_float_10)
    next
      case False
      with z show ?thesis
        by (simp add: same_number_def fmul_zero_left_nonfinite)
    qed
  next
    case False
    from fsub_feq_infinite [OF eq False] show ?thesis
      by (simp add: same_number_def)
  qed
qed

lemma energy_swap:
  "fmul (fmul float_half (fsub b a)) (fsub b a) = fmul (fmul float_half (fsub a b)) (fsub a b)"
proof (cases "feq a b")
  case False
  then show ?thesis
    by (simp add: fsub_swap fmul_fneg_left fmul_fneg_right)
next
  case eq: True
  show ?thesis
  proof (cases "is_finite a")
    case True
    from fsub_feq_finite [OF eq True] show ?thesis
      by (simp add: energy_of_zero)
  next
    case False
    from fsub_feq_infinite [OF eq False] show ?thesis
      by simp
  qed
qed

section \<open>Equal samples\<close>

text \<open>
  Claim C4, as amended. Where the live and the canonical value at the location are
  equal and finite, the energy is \<open>+0\<close>, and each gradient output is a zero when the
  gradient value of its field at the location is finite, and NaN when that value is
  an infinity or NaN.
\<close>

theorem equal_samples_give_zero:
  assumes "in_bounds warped_live_field x y" and "in_bounds canonical_field x y"
    and "in_bounds live_gradient_x_field x y" and "in_bounds live_gradient_y_field x y"
    and "feq (sample mem warped_live_field x y) (sample mem canonical_field x y)"
    and "is_finite (sample mem warped_live_field x y)"
    and "distinct [data_gradient_x, data_gradient_y, local_energy_contribution]"
  shows "\<exists>mem'.
           data_term_at_location warped_live_field canonical_field x y
             live_gradient_x_field live_gradient_y_field
             data_gradient_x data_gradient_y local_energy_contribution mem = Some mem' \<and>
           mem' local_energy_contribution = float_0 \<and>
           (if is_finite (sample mem live_gradient_x_field x y)
            then is_zero (mem' data_gradient_x) else mem' data_gradient_x = NaN) \<and>
           (if is_finite (sample mem live_gradient_y_field x y)
            then is_zero (mem' data_gradient_y) else mem' data_gradient_y = NaN)"
proof -
  from fsub_feq_finite [OF assms(5,6)]
  have z: "is_zero (fsub (sample mem warped_live_field x y) (sample mem canonical_field x y))"
    by simp
  have g: "if is_finite v
      then is_zero (fmul (fmul (fsub (sample mem warped_live_field x y)
                                     (sample mem canonical_field x y)) v) float_10)
      else fmul (fmul (fsub (sample mem warped_live_field x y)
                            (sample mem canonical_field x y)) v) float_10 = NaN" for v
    using z by (simp add: fmul_zero_left fmul_zero_float_10 fmul_zero_left_nonfinite)
  from assms(7) g [of "sample mem live_gradient_x_field x y"]
    g [of "sample mem live_gradient_y_field x y"] energy_of_zero [OF z]
  show ?thesis
    by (simp add: data_term_at_location_in_bounds [OF assms(1-4)])
qed

theorem equal_samples_give_zero_witness:
  "in_bounds (ex_field 0) 2 1 \<and> in_bounds (ex_field 1) 2 1 \<and>
   in_bounds (ex_field 2) 2 1 \<and> in_bounds (ex_field 3) 2 1 \<and>
   feq (sample ex_mem_equal (ex_field 0) 2 1) (sample ex_mem_equal (ex_field 1) 2 1) \<and>
   is_finite (sample ex_mem_equal (ex_field 0) 2 1) \<and>
   is_finite (sample ex_mem_equal (ex_field 2) 2 1) \<and>
   is_finite (sample ex_mem_equal (ex_field 3) 2 1) \<and>
   distinct [Var 7, Var 8, Var 9] \<and>
   (\<exists>mem'.
      data_term_at_location (ex_field 0) (ex_field 1) 2 1 (ex_field 2) (ex_field 3)
        (Var 7) (Var 8) (Var 9) ex_mem_equal = Some mem' \<and>
      mem' (Var 9) = float_0 \<and> is_zero (mem' (Var 7)) \<and> is_zero (mem' (Var 8)))"
  using equal_samples_give_zero [of "ex_field 0" 2 1 "ex_field 1" "ex_field 2" "ex_field 3"
      ex_mem_equal "Var 7" "Var 8" "Var 9"]
  by (auto simp add: model_eval float_eval)

text \<open>
  The claim as stated fails: with live and canonical both \<open>1.0\<close> and an infinite x
  gradient, \<open>data_gradient_x\<close> is NaN; and with live and canonical both \<open>+\<infinity>\<close>,
  which compare equal, all three outputs are NaN.
\<close>

theorem equal_samples_counterexample:
  "in_bounds (ex_field 0) 2 1 \<and> in_bounds (ex_field 1) 2 1 \<and>
   in_bounds (ex_field 2) 2 1 \<and> in_bounds (ex_field 3) 2 1 \<and>
   feq (sample ex_mem_infinite_gradient (ex_field 0) 2 1)
       (sample ex_mem_infinite_gradient (ex_field 1) 2 1) \<and>
   sample ex_mem_infinite_gradient (ex_field 2) 2 1 = Infinity False \<and>
   data_term_at_location (ex_field 0) (ex_field 1) 2 1 (ex_field 2) (ex_field 3)
     (Var 7) (Var 8) (Var 9) ex_mem_infinite_gradient \<noteq> None \<and>
   the (data_term_at_location (ex_field 0) (ex_field 1) 2 1 (ex_field 2) (ex_field 3)
     (Var 7) (Var 8) (Var 9) ex_mem_infinite_gradient) (Var 7) = NaN \<and>
   \<not> is_zero (the (data_term_at_location (ex_field 0) (ex_field 1) 2 1 (ex_field 2) (ex_field 3)
     (Var 7) (Var 8) (Var 9) ex_mem_infinite_gradient) (Var 7)) \<and>
   py_data_term_at_location (ex_field 0) (ex_field 1) 2 1 (ex_field 2) (ex_field 3)
     ex_mem_infinite_gradient = Some ((NaN, Finite True 0 (- 149)), float_0) \<and>
   feq (sample ex_mem_equal_infinite (ex_field 0) 2 1)
       (sample ex_mem_equal_infinite (ex_field 1) 2 1) \<and>
   py_data_term_at_location (ex_field 0) (ex_field 1) 2 1 (ex_field 2) (ex_field 3)
     ex_mem_equal_infinite = Some ((NaN, NaN), NaN)"
  by (simp add: py_data_term_at_location_def data_term_at_location_def coeff_ref_def
      model_eval float_eval)

section \<open>Swapping the two fields\<close>

text \<open>
  Claim C6. Calling with the live and the canonical field exchanged negates both
  gradient outputs and leaves the energy as it is. The negation is exact (the same
  float with the other sign) unless the two values compare equal at the location;
  there both calls give a zero (or both NaN), and a zero and its negation are the same
  number.
\<close>

theorem swap_negates_gradient:
  assumes "in_bounds warped_live_field x y" and "in_bounds canonical_field x y"
    and "in_bounds live_gradient_x_field x y" and "in_bounds live_gradient_y_field x y"
    and "distinct [data_gradient_x, data_gradient_y, local_energy_contribution]"
  shows "\<exists>mem' mem''.
           data_term_at_location warped_live_field canonical_field x y
             live_gradient_x_field live_gradient_y_field
             data_gradient_x data_gradient_y local_energy_contribution mem = Some mem' \<and>
           data_term_at_location canonical_field warped_live_field x y
             live_gradient_x_field live_gradient_y_field
             data_gradient_x data_gradient_y local_energy_contribution mem = Some mem'' \<and>
           same_number (mem'' data_gradient_x) (fneg (mem' data_gradient_x)) \<and>
           same_number (mem'' data_gradient_y) (fneg (mem' data_gradient_y)) \<and>
           mem'' local_energy_contribution = mem' local_energy_contribution \<and>
           (feq (sample mem warped_live_field x y) (sample mem canonical_field x y) \<or>
            mem'' data_gradient_x = fneg (mem' data_gradient_x) \<and>
            mem'' data_gradient_y = fneg (mem' data_gradient_y))"
  using assms(5)
  by (auto simp add: data_term_at_location_in_bounds [OF assms(1-4)]
      data_term_at_location_in_bounds [OF assms(2,1,3,4)]
      gradient_swap gradient_swap_exact energy_swap)

theorem swap_negates_gradient_witness:
  "in_bounds (ex_field 0) 2 1 \<and> in_bounds (ex_field 1) 2 1 \<and>
   in_bounds (ex_field 2) 2 1 \<and> in_bounds (ex_field 3) 2 1 \<and>
   distinct [Var 7, Var 8, Var 9] \<and>
   (\<exists>mem' mem''.
      data_term_at_location (ex_field 0) (ex_field 1) 2 1 (ex_field 2) (ex_field 3)
        (Var 7) (Var 8) (Var 9) ex_mem = Some mem' \<and>
      data_term_at_location (ex_field 1) (ex_field 0) 2 1 (ex_field 2) (ex_field 3)
        (Var 7) (Var 8) (Var 9) ex_mem = Some mem'' \<and>
      mem' (Var 7) = float_10 \<and> mem'' (Var 7) = fneg float_10 \<and>
      mem'' (Var 7) = fneg (mem' (Var 7)) \<and> mem'' (Var 8) = fneg (mem' (Var 8)) \<and>
      mem'' (Var 9) = mem' (Var 9))"
  using swap_negates_gradient [of "ex_field 0" 2 1 "ex_field 1" "ex_field 2" "ex_field 3"
      "Var 7" "Var 8" "Var 9" ex_mem]
  by (auto simp add: data_term_at_location_def coeff_ref_def model_eval float_eval)

section \<open>Bit lengths and rounding shifts\<close>

lemma bit_length_upper: "n < 2 ^ bit_length n"
proof (induction n rule: bit_length.induct)
  case (1 n)
  show ?case
  proof (cases "n = 0")
    case True
    then show ?thesis by simp
  next
    case False
    with "1" have "n div 2 < 2 ^ bit_length (n div 2)" by simp
    then have "n < 2 * 2 ^ bit_length (n div 2)" by linarith
    with False show ?thesis by (subst bit_length.simps) simp
  qed
qed

lemma bit_length_lower: "0 < n \<Longrightarrow> 2 ^ bit_length n \<le> 2 * n"
proof (induction n rule: bit_length.induct)
  case (1 n)
  then have n: "n \<noteq> 0" by simp
  show ?case
  proof (cases "n div 2 = 0")
    case True
    with n have "n = 1" by linarith
    then show ?thesis by simp
  next
    case False
    with "1" n have "2 ^ bit_length (n div 2) \<le> 2 * (n div 2)" by simp
    then have "2 * 2 ^ bit_length (n div 2) \<le> 2 * n" by linarith
    with n show ?thesis by (subst bit_length.simps) simp
  qed
qed

lemma bit_length_eqI:
  assumes "2 ^ k \<le> n" and "n < 2 ^ Suc k"
  shows "bit_length n = Suc k"
proof -
  from assms(1) have pos: "0 < n"
    by (metis less_le_trans zero_less_numeral zero_less_power)
  have "(2::nat) ^ k < 2 ^ bit_length n"
    using assms(1) bit_length_upper [of n] by linarith
  then have 1: "k < bit_length n"
    by simp
  have 2: "bit_length n < Suc (Suc k)"
  proof (rule power_less_imp_less_exp)
    show "(1::nat) < 2" by simp
    show "(2::nat) ^ bit_length n < 2 ^ Suc (Suc k)"
      using assms(2) bit_length_lower [OF pos] by simp
  qed
  from 1 2 show ?thesis by linarith
qed

lemma bit_length_pos: "0 < n \<Longrightarrow> 0 < bit_length n"
  by (subst bit_length.simps) simp

lemma bit_length_shift:
  assumes "0 < n"
  shows "bit_length (n * 2 ^ j) = bit_length n + j"
proof -
  obtain k where k: "bit_length n = Suc k"
    using bit_length_pos [OF assms] by (cases "bit_length n") auto
  have lo: "2 ^ k \<le> n"
    using bit_length_lower [OF assms] k by simp
  have hi: "n < 2 ^ Suc k"
    using bit_length_upper [of n] k by simp
  from lo have "2 ^ (k + j) \<le> n * 2 ^ j"
    by (simp add: power_add)
  moreover from hi have "n * 2 ^ j < 2 ^ Suc (k + j)"
    by (simp add: power_add)
  ultimately have "bit_length (n * 2 ^ j) = Suc (k + j)"
    by (rule bit_length_eqI)
  with k show ?thesis by simp
qed

lemma rne_shift_le:
  assumes "M \<le> c * 2 ^ k"
  shows "rne_shift M k \<le> c"
proof -
  have q: "M div 2 ^ k \<le> c"
    using assms by (metis div_le_mono div_mult_self_is_m zero_less_numeral zero_less_power)
  show ?thesis
  proof (cases "M div 2 ^ k = c")
    case True
    then have "c * 2 ^ k + M mod 2 ^ k = M"
      by (metis div_mult_mod_eq)
    with assms have "M mod 2 ^ k = 0" by linarith
    with True show ?thesis by (simp add: rne_shift_def Let_def)
  next
    case False
    with q have "M div 2 ^ k < c" by simp
    then show ?thesis by (simp add: rne_shift_def Let_def)
  qed
qed

lemma rne_shift_ge:
  assumes "c * 2 ^ k \<le> M"
  shows "c \<le> rne_shift M k"
proof -
  have "c \<le> M div 2 ^ k"
    using assms by (metis div_le_mono div_mult_self_is_m zero_less_numeral zero_less_power)
  then show ?thesis by (simp add: rne_shift_def Let_def)
qed

lemma rne_shift_exact: "rne_shift (c * 2 ^ k) k = c"
  by (rule antisym [OF rne_shift_le rne_shift_ge]) simp_all

lemma rne_shift_small: "2 * M < 2 ^ k \<Longrightarrow> rne_shift M k = 0"
  by (simp add: rne_shift_def Let_def)

lemma rne_shift_scale: "rne_shift (M * 2 ^ j) (k + j) = rne_shift M k"
proof -
  have d: "(M * 2 ^ j) div 2 ^ (k + j) = M div 2 ^ k"
    by (simp add: power_add)
  have m: "(M * 2 ^ j) mod 2 ^ (k + j) = (M mod 2 ^ k) * 2 ^ j"
    by (simp add: power_add mult_mod_left mult.commute)
  show ?thesis
    unfolding rne_shift_def Let_def d m by (simp add: power_add)
qed


section \<open>The rounded mantissa and exponent\<close>

lemma two_powi_le_iff: "(2::real) powi a \<le> 2 powi b \<longleftrightarrow> a \<le> b"
proof
  assume le: "(2::real) powi a \<le> 2 powi b"
  show "a \<le> b"
  proof (rule ccontr)
    assume "\<not> a \<le> b"
    then have "(2::real) powi b < 2 powi a"
      by (intro power_int_strict_increasing) simp_all
    with le show False by simp
  qed
next
  assume "a \<le> b"
  then show "(2::real) powi a \<le> 2 powi b"
    by (intro power_int_increasing) simp_all
qed

lemma two_powi_add: "(2::real) powi (a + b) = 2 powi a * 2 powi b"
  by (simp add: power_int_add)


lemma round_exponent_ge: "- 149 \<le> round_exponent M E"
  by (simp add: round_exponent_def)

lemma round_exponent_ge_len: "E + int (bit_length M) - 24 \<le> round_exponent M E"
  by (simp add: round_exponent_def)

lemma round_mantissa_le:
  assumes "0 < M"
  shows "round_mantissa M E \<le> 2 ^ 24"
proof (cases "round_exponent M E \<le> E")
  case True
  define n where "n = nat (E - round_exponent M E)"
  have len: "bit_length M + n \<le> 24"
    using round_exponent_ge_len [of E M] True by (simp add: n_def)
  have "M * 2 ^ n < 2 ^ bit_length M * 2 ^ n"
    using bit_length_upper [of M] by simp
  also have "\<dots> = 2 ^ (bit_length M + n)"
    by (simp add: power_add)
  also have "\<dots> \<le> 2 ^ 24"
    using len by (intro power_increasing) simp_all
  finally show ?thesis
    using True by (simp add: round_mantissa_def n_def)
next
  case False
  define j where "j = nat (round_exponent M E - E)"
  have len: "bit_length M \<le> 24 + j"
    using round_exponent_ge_len [of E M] False by (simp add: j_def)
  have "M < 2 ^ bit_length M"
    by (rule bit_length_upper)
  also have "\<dots> \<le> 2 ^ (24 + j)"
    using len by (intro power_increasing) simp_all
  finally have "M \<le> 2 ^ 24 * 2 ^ j"
    by (simp add: power_add)
  then have "rne_shift M j \<le> 2 ^ 24"
    by (rule rne_shift_le)
  then show ?thesis
    using False by (simp add: round_mantissa_def j_def)
qed

lemma round_mantissa_normal:
  assumes "0 < M" and "- 149 \<le> E + int (bit_length M) - 24"
  shows "2 ^ 23 \<le> round_mantissa M E"
proof -
  have e: "round_exponent M E = E + int (bit_length M) - 24"
    using assms(2) by (simp add: round_exponent_def)
  have lo: "2 ^ bit_length M \<le> 2 * M"
    by (rule bit_length_lower [OF assms(1)])
  show ?thesis
  proof (cases "round_exponent M E \<le> E")
    case True
    define n where "n = nat (E - round_exponent M E)"
    have len: "bit_length M + n = 24"
      using e True by (simp add: n_def)
    have "(2::nat) ^ 24 = 2 ^ bit_length M * 2 ^ n"
      by (simp add: len flip: power_add)
    also have "\<dots> \<le> 2 * M * 2 ^ n"
      using lo by simp
    finally have "2 ^ 23 \<le> M * 2 ^ n"
      by simp
    then show ?thesis
      using True by (simp add: round_mantissa_def n_def)
  next
    case False
    define j where "j = nat (round_exponent M E - E)"
    have len: "bit_length M = 24 + j"
      using e False by (simp add: j_def)
    have "2 * (2 ^ 23 * 2 ^ j) = (2::nat) ^ bit_length M"
      by (simp add: len power_add)
    with lo have "2 ^ 23 * 2 ^ j \<le> M"
      by linarith
    then have "2 ^ 23 \<le> rne_shift M j"
      by (rule rne_shift_ge)
    then show ?thesis
      using False by (simp add: round_mantissa_def j_def)
  qed
qed

lemma fround_valid: "is_float32 (fround s M E)"
proof (cases "M = 0")
  case True
  then show ?thesis by simp
next
  case False
  then have pos: "0 < M" by simp
  let ?e = "round_exponent M E"
  let ?q = "round_mantissa M E"
  have q: "?q \<le> 2 ^ 24"
    by (rule round_mantissa_le [OF pos])
  have e: "- 149 \<le> ?e"
    by (rule round_exponent_ge)
  have norm: "2 ^ 23 \<le> ?q \<or> ?e = - 149"
  proof (cases "- 149 \<le> E + int (bit_length M) - 24")
    case True
    then show ?thesis
      using round_mantissa_normal [OF pos] by simp
  next
    case False
    then show ?thesis
      by (simp add: round_exponent_def)
  qed
  show ?thesis
    using False q e norm by (auto simp add: fround_def Let_def)
qed


section \<open>Bounds on results\<close>











section \<open>Doubling, halving and underflow\<close>

lemma bit_length_le:
  assumes "M < 2 ^ k"
  shows "bit_length M \<le> k"
proof (cases "M = 0")
  case True
  then show ?thesis by simp
next
  case False
  then have "2 ^ bit_length M \<le> 2 * M"
    by (intro bit_length_lower) simp
  also have "\<dots> < 2 ^ Suc k"
    using assms by simp
  finally have "bit_length M < Suc k"
    by (rule power_less_imp_less_exp [rotated]) simp
  then show ?thesis by simp
qed

lemma bit_length_product:
  assumes "2 ^ 23 \<le> m" and "m < 2 ^ 24"
  shows "bit_length (8388608 * m) = 47"
proof -
  have "2 ^ 46 \<le> 8388608 * m"
    using assms(1) by simp
  moreover have "8388608 * m < 2 ^ Suc 46"
    using assms(2) by simp
  ultimately have "bit_length (8388608 * m) = Suc 46"
    by (rule bit_length_eqI)
  then show ?thesis by simp
qed

lemma rne_shift_8388608: "rne_shift (8388608 * m) 23 = m"
  using rne_shift_exact [of m 23] by (simp add: mult.commute)

lemma fmul_float_2_normal:
  assumes "2 ^ 23 \<le> m" and "m < 2 ^ 24" and "- 149 \<le> e"
  shows "fmul float_2 (Finite s m e) = (if 104 < e + 1 then Infinity s else Finite s m (e + 1))"
proof -
  have pos: "8388608 * m \<noteq> 0"
    using assms(1) by simp
  have re: "round_exponent (8388608 * m) (e - 22) = e + 1"
    using assms(3) by (simp add: round_exponent_def bit_length_product [OF assms(1,2)])
  have rm: "round_mantissa (8388608 * m) (e - 22) = m"
    by (simp add: round_mantissa_def Let_def re rne_shift_8388608)
  show ?thesis
    using assms(1,2)
    by (simp add: float_2_def fround_def Let_def re rm)
qed

lemma fmul_float_2_subnormal:
  assumes "m < 2 ^ 23"
  shows "fmul float_2 (Finite s m (- 149)) = Finite s (2 * m) (- 149)"
proof (cases "m = 0")
  case True
  then show ?thesis by (simp add: float_2_def)
next
  case False
  then have pos: "0 < m" by simp
  have "bit_length (m * 2 ^ 23) = bit_length m + 23"
    by (rule bit_length_shift [OF pos])
  moreover have "bit_length m \<le> 23"
    by (rule bit_length_le [OF assms])
  ultimately have bl: "bit_length (8388608 * m) \<le> 46"
    by (simp add: mult.commute)
  have re: "round_exponent (8388608 * m) (- 171) = - 149"
    using bl by (simp add: round_exponent_def)
  have "rne_shift (2 * m * 2 ^ 22) 22 = 2 * m"
    by (rule rne_shift_exact)
  then have rm: "round_mantissa (8388608 * m) (- 171) = 2 * m"
    by (simp add: round_mantissa_def Let_def re)
  show ?thesis
    using assms False by (simp add: float_2_def fround_def Let_def re rm)
qed

lemma fmul_float_2_Infinity [simp]: "fmul float_2 (Infinity s) = Infinity s"
  by (simp add: float_2_def)

lemma fmul_float_2_NaN [simp]: "fmul float_2 NaN = NaN"
  by (simp add: float_2_def)

lemma fround_normal:
  assumes "0 < M" and "- 149 \<le> E + int (bit_length M) - 24"
  shows "fround s M E = Infinity s \<or>
    (\<exists>m e. fround s M E = Finite s m e \<and> 2 ^ 23 \<le> m \<and> m < 2 ^ 24 \<and> - 149 \<le> e \<and> e \<le> 104)"
proof -
  have "2 ^ 23 \<le> round_mantissa M E"
    by (rule round_mantissa_normal [OF assms])
  moreover have "round_mantissa M E \<le> 2 ^ 24"
    by (rule round_mantissa_le [OF assms(1)])
  moreover have "- 149 \<le> round_exponent M E"
    by (rule round_exponent_ge)
  ultimately show ?thesis
    using assms(1) by (auto simp add: fround_def Let_def)
qed

lemma fround_double:
  assumes "0 < M" and "- 149 \<le> E + int (bit_length M) - 24"
  shows "fround s M (E + 1) = fmul float_2 (fround s M E)"
proof -
  have e0: "round_exponent M E = E + int (bit_length M) - 24"
    using assms(2) by (simp add: round_exponent_def)
  have e1: "round_exponent M (E + 1) = round_exponent M E + 1"
    using assms(2) by (simp add: round_exponent_def)
  have q1: "round_mantissa M (E + 1) = round_mantissa M E"
    by (simp add: round_mantissa_def Let_def e1)
  let ?q = "round_mantissa M E"
  let ?e = "round_exponent M E"
  have lo: "2 ^ 23 \<le> ?q"
    by (rule round_mantissa_normal [OF assms])
  have hi: "?q \<le> 2 ^ 24"
    by (rule round_mantissa_le [OF assms(1)])
  have ge: "- 149 \<le> ?e"
    by (rule round_exponent_ge)
  show ?thesis
  proof (cases "?q = 2 ^ 24")
    case True
    have "fmul float_2 (Finite s (2 ^ 23) (?e + 1)) =
        (if 104 < ?e + 1 + 1 then Infinity s else Finite s (2 ^ 23) (?e + 1 + 1))"
      using ge by (intro fmul_float_2_normal) simp_all
    with True assms(1) show ?thesis
      by (simp add: fround_def Let_def e1 q1)
  next
    case False
    with hi have "?q < 2 ^ 24" by simp
    from fmul_float_2_normal [OF lo this ge, of s] False assms(1) show ?thesis
      by (auto simp add: fround_def Let_def e1 q1)
  qed
qed

lemma fround_twice: "fround s (2 * M) E = fround s M (E + 1)"
proof (cases "M = 0")
  case True
  then show ?thesis by simp
next
  case False
  then have pos: "0 < M" by simp
  have bl: "bit_length (2 * M) = bit_length M + 1"
    using bit_length_shift [OF pos, of 1] by (simp add: mult.commute)
  have e: "round_exponent (2 * M) E = round_exponent M (E + 1)"
    by (simp add: round_exponent_def bl)
  let ?e = "round_exponent M (E + 1)"
  have q: "round_mantissa (2 * M) E = round_mantissa M (E + 1)"
  proof -
    consider "?e \<le> E" | "?e = E + 1" | "E + 1 < ?e"
      by linarith
    then show ?thesis
    proof cases
      case 1
      then have "nat (E + 1 - ?e) = Suc (nat (E - ?e))"
        by simp
      with 1 show ?thesis
        by (simp add: round_mantissa_def Let_def e)
    next
      case 2
      have "rne_shift (2 * M) (Suc 0) = M"
        using rne_shift_exact [of M 1] by (simp add: mult.commute)
      with 2 show ?thesis
        by (simp add: round_mantissa_def Let_def e)
    next
      case 3
      then have "nat (?e - E) = nat (?e - (E + 1)) + 1"
        by simp
      moreover have "rne_shift (2 * M) (nat (?e - (E + 1)) + 1) = rne_shift M (nat (?e - (E + 1)))"
        using rne_shift_scale [of M 1 "nat (?e - (E + 1))"] by (simp add: mult.commute)
      ultimately show ?thesis
        using 3 by (simp add: round_mantissa_def Let_def e)
    qed
  qed
  show ?thesis
    using False by (simp add: fround_def Let_def e q)
qed

lemma fround_tiny:
  assumes "M < 2 ^ 48" and "E \<le> - 200"
  shows "fround s M E = Finite s 0 (- 149)"
proof (cases "M = 0")
  case True
  then show ?thesis by simp
next
  case False
  have bl: "bit_length M \<le> 48"
    by (rule bit_length_le [OF assms(1)])
  have e: "round_exponent M E = - 149"
    using bl assms(2) by (simp add: round_exponent_def)
  have "2 * M < 2 ^ 49"
    using assms(1) by simp
  also have "(2::nat) ^ 49 \<le> 2 ^ nat (- 149 - E)"
    using assms(2) by (intro power_increasing) simp_all
  finally have "rne_shift M (nat (- 149 - E)) = 0"
    by (rule rne_shift_small)
  then have q: "round_mantissa M E = 0"
    using assms(2) by (simp add: round_mantissa_def Let_def e)
  show ?thesis
    using False by (simp add: fround_def Let_def e q)
qed

lemma energy_rounds_once:
  assumes "is_float32 (Finite s m e)"
  shows "fmul (fmul float_half (Finite s m e)) (Finite s m e) = fround False (m * m) (2 * e - 1)"
proof -
  from assms have m: "m < 2 ^ 24" and e: "- 149 \<le> e" "e \<le> 104"
    and norm: "2 ^ 23 \<le> m \<or> e = - 149"
    by simp_all
  show ?thesis
  proof (cases "e = - 149")
    case False
    with norm have lo: "2 ^ 23 \<le> m" by simp
    have re: "round_exponent (8388608 * m) (e - 24) = e - 1"
      using e False by (simp add: round_exponent_def bit_length_product [OF lo m])
    have rm: "round_mantissa (8388608 * m) (e - 24) = m"
      by (simp add: round_mantissa_def Let_def re rne_shift_8388608)
    have "fmul float_half (Finite s m e) = Finite s m (e - 1)"
      using lo m e by (simp add: float_half_def fround_def Let_def re rm)
    moreover have "e - 1 + e = 2 * e - 1"
      by simp
    ultimately show ?thesis
      by simp
  next
    case True
    have mm: "m * m < 2 ^ 48"
    proof -
      have "m * m \<le> m * 2 ^ 24"
        using m by (intro mult_left_mono) simp_all
      also have "\<dots> < 2 ^ 24 * 2 ^ 24"
        using m by simp
      finally show ?thesis by simp
    qed
    have rhs: "fround False (m * m) (2 * e - 1) = Finite False 0 (- 149)"
      using True by (intro fround_tiny mm) simp
    show ?thesis
    proof (cases "m = 0")
      case True
      then show ?thesis by (simp add: float_half_def)
    next
      case False
      then have pos: "0 < m" by simp
      have "bit_length (m * 2 ^ 23) = bit_length m + 23"
        by (rule bit_length_shift [OF pos])
      moreover have "bit_length m \<le> 24"
        by (rule bit_length_le [OF m])
      ultimately have bl: "bit_length (8388608 * m) \<le> 47"
        by (simp add: mult.commute)
      have re: "round_exponent (8388608 * m) (- 173) = - 149"
        using bl by (simp add: round_exponent_def)
      define h where "h = rne_shift (8388608 * m) 24"
      have "8388608 * m \<le> 2 ^ 23 * 2 ^ 24"
        using m by simp
      then have h: "h \<le> 2 ^ 23"
        unfolding h_def by (rule rne_shift_le)
      have rm: "round_mantissa (8388608 * m) (- 173) = h"
        by (simp add: round_mantissa_def Let_def re h_def)
      have half: "fmul float_half (Finite s m e) = Finite s h (- 149)"
        using False h \<open>e = - 149\<close> by (simp add: float_half_def fround_def Let_def re rm)
      have "h * m < 2 ^ 48"
      proof -
        have "h * m \<le> 2 ^ 23 * m"
          using h by (intro mult_right_mono) simp_all
        also have "\<dots> < 2 ^ 23 * 2 ^ 24"
          using m by simp
        finally show ?thesis by simp
      qed
      then have "fround False (h * m) (- 298) = Finite False 0 (- 149)"
        by (intro fround_tiny) simp_all
      with half rhs \<open>e = - 149\<close> show ?thesis
        by simp
    qed
  qed
qed

lemma fsub_valid: "is_float32 (fsub a b)"
  by (cases a; cases b) (simp_all add: Let_def fround_valid)

section \<open>The energy\<close>

lemma half_square_value:
  "real (m * m) * 2 powi (2 * e - 1) = 1 / 2 * (valof (Finite s m e))\<^sup>2"
proof -
  have "(2::real) powi (2 * e - 1) = 2 powi (e + e + - 1)"
    by simp
  also have "\<dots> = 2 powi e * 2 powi e * 2 powi (- 1)"
    by (simp only: two_powi_add)
  finally have "(2::real) powi (2 * e - 1) = 2 powi e * 2 powi e / 2"
    by (simp add: power_int_minus)
  then show ?thesis
    by (simp add: power2_eq_square)
qed

lemma energy_of_Infinity:
  "fmul (fmul float_half (Infinity s)) (Infinity s) = Infinity False"
  by (simp add: float_half_def)

text \<open>
  Claim C2. For a location in bounds, the call leaves in \<open>local_energy_contribution\<close>
  the float \<open>0.5 * d * d\<close>, where \<open>d = live - canonical\<close> is the binary32 difference of
  the two values at the location. Although the code rounds twice, this is
  \<open>0.5 * d\<^sup>2\<close> rounded once: for a finite \<open>d\<close> of magnitude \<open>m * 2\<^sup>e\<close> it is the rounding
  of the exact number \<open>m\<^sup>2 * 2\<^sup>2\<^sup>e\<^sup>-\<^sup>1\<close>, which is half the square of \<open>d\<close>; for an
  infinite \<open>d\<close> it is \<open>+\<infinity>\<close>, and for NaN it is NaN.
\<close>

theorem energy_formula:
  assumes "in_bounds warped_live_field x y" and "in_bounds canonical_field x y"
    and "in_bounds live_gradient_x_field x y" and "in_bounds live_gradient_y_field x y"
    and "distinct [data_gradient_x, data_gradient_y, local_energy_contribution]"
  shows "\<exists>mem'.
           data_term_at_location warped_live_field canonical_field x y
             live_gradient_x_field live_gradient_y_field
             data_gradient_x data_gradient_y local_energy_contribution mem = Some mem' \<and>
           mem' local_energy_contribution =
             fmul (fmul float_half
                     (fsub (sample mem warped_live_field x y) (sample mem canonical_field x y)))
                  (fsub (sample mem warped_live_field x y) (sample mem canonical_field x y)) \<and>
           (case fsub (sample mem warped_live_field x y) (sample mem canonical_field x y) of
              Finite s m e \<Rightarrow>
                mem' local_energy_contribution = fround False (m * m) (2 * e - 1) \<and>
                real (m * m) * 2 powi (2 * e - 1) = 1 / 2 * (valof (Finite s m e))\<^sup>2
            | Infinity s \<Rightarrow> mem' local_energy_contribution = Infinity False
            | NaN \<Rightarrow> mem' local_energy_contribution = NaN)"
proof -
  let ?d = "fsub (sample mem warped_live_field x y) (sample mem canonical_field x y)"
  have "case ?d of
      Finite s m e \<Rightarrow>
        fmul (fmul float_half ?d) ?d = fround False (m * m) (2 * e - 1) \<and>
        real (m * m) * 2 powi (2 * e - 1) = 1 / 2 * (valof (Finite s m e))\<^sup>2
    | Infinity s \<Rightarrow> fmul (fmul float_half ?d) ?d = Infinity False
    | NaN \<Rightarrow> fmul (fmul float_half ?d) ?d = NaN"
  proof (cases ?d)
    case (Finite s m e)
    with fsub_valid [of "sample mem warped_live_field x y" "sample mem canonical_field x y"]
    have "is_float32 (Finite s m e)" by simp
    from energy_rounds_once [OF this] half_square_value [of m e s] Finite show ?thesis
      by simp
  next
    case (Infinity s)
    then show ?thesis by (simp add: energy_of_Infinity)
  next
    case NaN
    then show ?thesis by (simp add: float_half_def)
  qed
  with assms(5) show ?thesis
    by (auto simp add: data_term_at_location_in_bounds [OF assms(1-4)] split: float32.splits)
qed

theorem energy_formula_witness:
  "in_bounds (ex_field 0) 2 1 \<and> in_bounds (ex_field 1) 2 1 \<and>
   in_bounds (ex_field 2) 2 1 \<and> in_bounds (ex_field 3) 2 1 \<and>
   distinct [Var 7, Var 8, Var 9] \<and>
   fsub (sample ex_mem (ex_field 0) 2 1) (sample ex_mem (ex_field 1) 2 1) = float_half \<and>
   (\<exists>mem'.
      data_term_at_location (ex_field 0) (ex_field 1) 2 1 (ex_field 2) (ex_field 3)
        (Var 7) (Var 8) (Var 9) ex_mem = Some mem' \<and>
      mem' (Var 9) = fmul (fmul float_half float_half) float_half \<and>
      mem' (Var 9) = fround False (8388608 * 8388608) (2 * (- 24) - 1) \<and>
      mem' (Var 9) = float_eighth)"
  using energy_formula [of "ex_field 0" 2 1 "ex_field 1" "ex_field 2" "ex_field 3"
      "Var 7" "Var 8" "Var 9" ex_mem]
  by (auto simp add: model_eval float_eval)

section \<open>Finite outputs\<close>








section \<open>Doubling the gradient\<close>

lemma bit_length_gt:
  assumes "2 ^ k \<le> M"
  shows "k < bit_length M"
proof (rule power_less_imp_less_exp)
  show "(1::nat) < 2" by simp
  show "(2::nat) ^ k < 2 ^ bit_length M"
    using assms bit_length_upper [of M] by linarith
qed

lemma no_clamp:
  assumes "0 < M" and "2 powi (- 126) \<le> real M * 2 powi E"
  shows "- 149 \<le> E + int (bit_length M) - 24"
proof -
  have "real M < real (2 ^ bit_length M)"
    using bit_length_upper [of M] by (simp only: of_nat_less_iff)
  then have "real M < 2 powi int (bit_length M)"
    by simp
  then have "real M * 2 powi E < 2 powi int (bit_length M) * 2 powi E"
    by (intro mult_strict_right_mono) simp_all
  with assms(2) have "(2::real) powi (- 126) < 2 powi int (bit_length M) * 2 powi E"
    by (rule order_le_less_trans)
  then have lt: "(2::real) powi (- 126) < 2 powi (int (bit_length M) + E)"
    by (simp only: two_powi_add)
  have "\<not> int (bit_length M) + E \<le> - 126"
  proof
    assume "int (bit_length M) + E \<le> - 126"
    then have "(2::real) powi (int (bit_length M) + E) \<le> 2 powi (- 126)"
      by (simp only: two_powi_le_iff)
    with lt show False by (meson not_le)
  qed
  then show ?thesis by simp
qed

lemma fround_overflow:
  assumes "0 < M" and "104 < E + int (bit_length M) - 24"
  shows "fround s M E = Infinity s"
proof -
  have "104 < round_exponent M E"
    using assms(2) by (simp add: round_exponent_def)
  with assms(1) show ?thesis
    by (simp add: fround_def Let_def)
qed

lemma scale_double:
  assumes "not_subnormal p"
  shows "fmul (fmul float_2 p) float_10 = fmul float_2 (fmul p float_10)"
proof (cases p)
  case (Finite s m e)
  show ?thesis
  proof (cases "m = 0")
    case True
    with Finite show ?thesis
      by (simp add: float_2_def float_10_def)
  next
    case False
    with assms Finite have m: "2 ^ 23 \<le> m" "m < 2 ^ 24" and e: "- 149 \<le> e" "e \<le> 104"
      by simp_all
    let ?M = "m * 10485760"
    have pos: "0 < ?M"
      using False by simp
    have "2 ^ 46 \<le> ?M"
      using m(1) by simp
    then have bl: "46 < bit_length ?M"
      by (rule bit_length_gt)
    have inner: "fmul p float_10 = fround s ?M (e - 20)"
      by (simp add: Finite float_10_def)
    have dbl: "fround s ?M (e - 20 + 1) = fmul float_2 (fround s ?M (e - 20))"
      using bl e by (intro fround_double pos) simp
    show ?thesis
    proof (cases "e = 104")
      case True
      have "fround s ?M (e - 20 + 1) = Infinity s"
        using bl True by (intro fround_overflow pos) simp
      with dbl have "fmul float_2 (fmul p float_10) = Infinity s"
        by (simp add: inner)
      moreover have "fmul float_2 p = Infinity s"
        using fmul_float_2_normal [OF m e(1), of s] True by (simp add: Finite)
      ultimately show ?thesis
        by (simp add: float_10_def)
    next
      case False
      with e have "fmul float_2 p = Finite s m (e + 1)"
        using fmul_float_2_normal [OF m e(1), of s] by (simp add: Finite)
      then have "fmul (fmul float_2 p) float_10 = fround s ?M (e + 1 - 20)"
        by (simp add: float_10_def)
      moreover have "e + 1 - 20 = e - 20 + 1"
        by simp
      ultimately show ?thesis
        using dbl by (simp add: inner)
    qed
  qed
next
  case (Infinity s)
  then show ?thesis by (simp add: float_10_def)
next
  case NaN
  then show ?thesis by simp
qed

lemma product_double:
  assumes "is_float32 g" and "is_finite (fmul float_2 g)" and "no_underflow d g"
  shows "fmul d (fmul float_2 g) = fmul float_2 (fmul d g) \<and> not_subnormal (fmul d g)"
proof -
  from assms(2) obtain t n f where g: "g = Finite t n f"
    by (cases g) simp_all
  from assms(1) g have n: "n < 2 ^ 24" and f: "- 149 \<le> f" "f \<le> 104"
    and norm: "2 ^ 23 \<le> n \<or> f = - 149"
    by simp_all
  consider (normal) "2 ^ 23 \<le> n" | (subnormal) "n < 2 ^ 23" "f = - 149"
    using norm by linarith
  then have g2: "fmul float_2 g = Finite t n (f + 1) \<or> fmul float_2 g = Finite t (2 * n) f"
  proof cases
    case normal
    from fmul_float_2_normal [OF normal n f(1), of t] assms(2) show ?thesis
      by (simp add: g split: if_splits)
  next
    case subnormal
    from fmul_float_2_subnormal [OF subnormal(1), of t] show ?thesis
      by (simp add: g subnormal(2))
  qed
  show ?thesis
  proof (cases d)
    case NaN
    then show ?thesis by simp
  next
    case (Infinity s)
    with g2 show ?thesis
      by (auto simp add: g)
  next
    case (Finite s m e)
    show ?thesis
    proof (cases "m * n = 0")
      case True
      with g2 show ?thesis
        by (auto simp add: g Finite float_2_def)
    next
      case False
      then have pos: "0 < m * n" by simp
      from assms(3) False have "2 powi (- 126) \<le> real (m * n) * 2 powi (e + f)"
        by (simp add: g Finite)
      then have nc: "- 149 \<le> e + f + int (bit_length (m * n)) - 24"
        by (rule no_clamp [OF pos])
      have dbl: "fround (s \<noteq> t) (m * n) (e + f + 1) = fmul float_2 (fround (s \<noteq> t) (m * n) (e + f))"
        by (rule fround_double [OF pos nc])
      have prod: "fmul d g = fround (s \<noteq> t) (m * n) (e + f)"
        by (simp add: g Finite)
      have "fmul d (fmul float_2 g) = fround (s \<noteq> t) (m * n) (e + f + 1)"
        using g2
      proof
        assume "fmul float_2 g = Finite t n (f + 1)"
        then show ?thesis
          by (simp add: Finite add.assoc)
      next
        assume "fmul float_2 g = Finite t (2 * n) f"
        then have "fmul d (fmul float_2 g) = fround (s \<noteq> t) (2 * (m * n)) (e + f)"
          by (simp add: Finite mult.left_commute)
        then show ?thesis
          by (simp only: fround_twice)
      qed
      moreover have "not_subnormal (fround (s \<noteq> t) (m * n) (e + f))"
        using fround_normal [OF pos nc, of "s \<noteq> t"] by auto
      ultimately show ?thesis
        using dbl by (simp add: prod)
    qed
  qed
qed

lemma gradient_double:
  assumes "is_float32 g" and "is_finite (fmul float_2 g)" and "no_underflow d g"
  shows "fmul (fmul d (fmul float_2 g)) float_10 = fmul float_2 (fmul (fmul d g) float_10)"
  using product_double [OF assms] by (simp add: scale_double)

lemma fmul_valid: "is_float32 (fmul a b)"
  by (cases a; cases b) (simp_all add: fround_valid)

lemma double_value:
  assumes "is_float32 p" and "is_finite (fmul float_2 p)"
  shows "is_finite p \<and> valof (fmul float_2 p) = 2 * valof p"
proof -
  from assms(2) obtain s m e where p: "p = Finite s m e"
    by (cases p) simp_all
  from assms(1) p have m: "m < 2 ^ 24" and e: "- 149 \<le> e"
    and norm: "2 ^ 23 \<le> m \<or> e = - 149"
    by simp_all
  have twice: "(2::real) powi (e + 1) = 2 * 2 powi e"
    by (simp add: two_powi_add)
  consider (normal) "2 ^ 23 \<le> m" | (subnormal) "m < 2 ^ 23" "e = - 149"
    using norm by linarith
  then show ?thesis
  proof cases
    case normal
    from fmul_float_2_normal [OF normal m e, of s] assms(2)
    have "fmul float_2 p = Finite s m (e + 1)"
      by (simp add: p split: if_splits)
    then show ?thesis
      by (simp add: p twice)
  next
    case subnormal
    from fmul_float_2_subnormal [OF subnormal(1), of s]
    have "fmul float_2 p = Finite s (2 * m) (- 149)"
      by (simp add: p subnormal(2))
    then show ?thesis
      by (simp add: p subnormal(2))
  qed
qed

lemma gradient_double_value:
  assumes "is_float32 g" and "is_finite (fmul float_2 g)" and "no_underflow d g"
  shows "valof (fmul float_2 g) = 2 * valof g \<and>
    fmul (fmul d (fmul float_2 g)) float_10 = fmul float_2 (fmul (fmul d g) float_10) \<and>
    (is_finite (fmul (fmul d (fmul float_2 g)) float_10) \<longrightarrow>
       is_finite (fmul (fmul d g) float_10) \<and>
       valof (fmul (fmul d (fmul float_2 g)) float_10) = 2 * valof (fmul (fmul d g) float_10))"
proof -
  have eq: "fmul (fmul d (fmul float_2 g)) float_10 = fmul float_2 (fmul (fmul d g) float_10)"
    by (rule gradient_double [OF assms])
  have "is_finite (fmul (fmul d g) float_10) \<and>
      valof (fmul float_2 (fmul (fmul d g) float_10)) = 2 * valof (fmul (fmul d g) float_10)"
    if "is_finite (fmul float_2 (fmul (fmul d g) float_10))"
    using fmul_valid that by (rule double_value)
  with eq double_value [OF assms(1,2)] show ?thesis
    by simp
qed

text \<open>
  Claim C7, as amended. Take a second store in which the live and canonical values at
  the location are the same and the two gradient values are replaced by their binary32
  doubles \<open>2.0 * g\<close>. Then the energy is the same. For each gradient whose value is a
  binary32 number with a finite double (so the doubling is exact) and whose exact
  product with the difference does not underflow (it is zero or at least \<open>2\<^sup>-\<^sup>1\<^sup>2\<^sup>6\<close> in
  magnitude), the new output is the binary32 product \<open>2.0 * output\<close>: if the new output
  is finite, the old one is finite and the new one is exactly twice it as a number;
  otherwise the doubling has overflowed.
\<close>

theorem doubled_gradient_doubles_output:
  assumes "in_bounds warped_live_field x y" and "in_bounds canonical_field x y"
    and "in_bounds live_gradient_x_field x y" and "in_bounds live_gradient_y_field x y"
    and "sample mem2 warped_live_field x y = sample mem warped_live_field x y"
    and "sample mem2 canonical_field x y = sample mem canonical_field x y"
    and "sample mem2 live_gradient_x_field x y = fmul float_2 (sample mem live_gradient_x_field x y)"
    and "sample mem2 live_gradient_y_field x y = fmul float_2 (sample mem live_gradient_y_field x y)"
    and "distinct [data_gradient_x, data_gradient_y, local_energy_contribution]"
  shows "\<exists>mem' mem2'.
           data_term_at_location warped_live_field canonical_field x y
             live_gradient_x_field live_gradient_y_field
             data_gradient_x data_gradient_y local_energy_contribution mem = Some mem' \<and>
           data_term_at_location warped_live_field canonical_field x y
             live_gradient_x_field live_gradient_y_field
             data_gradient_x data_gradient_y local_energy_contribution mem2 = Some mem2' \<and>
           mem2' local_energy_contribution = mem' local_energy_contribution \<and>
           (is_float32 (sample mem live_gradient_x_field x y) \<and>
            is_finite (sample mem2 live_gradient_x_field x y) \<and>
            no_underflow (fsub (sample mem warped_live_field x y) (sample mem canonical_field x y))
              (sample mem live_gradient_x_field x y) \<longrightarrow>
              valof (sample mem2 live_gradient_x_field x y) =
                2 * valof (sample mem live_gradient_x_field x y) \<and>
              mem2' data_gradient_x = fmul float_2 (mem' data_gradient_x) \<and>
              (is_finite (mem2' data_gradient_x) \<longrightarrow>
                 is_finite (mem' data_gradient_x) \<and>
                 valof (mem2' data_gradient_x) = 2 * valof (mem' data_gradient_x))) \<and>
           (is_float32 (sample mem live_gradient_y_field x y) \<and>
            is_finite (sample mem2 live_gradient_y_field x y) \<and>
            no_underflow (fsub (sample mem warped_live_field x y) (sample mem canonical_field x y))
              (sample mem live_gradient_y_field x y) \<longrightarrow>
              valof (sample mem2 live_gradient_y_field x y) =
                2 * valof (sample mem live_gradient_y_field x y) \<and>
              mem2' data_gradient_y = fmul float_2 (mem' data_gradient_y) \<and>
              (is_finite (mem2' data_gradient_y) \<longrightarrow>
                 is_finite (mem' data_gradient_y) \<and>
                 valof (mem2' data_gradient_y) = 2 * valof (mem' data_gradient_y)))"
proof -
  let ?d = "fsub (sample mem warped_live_field x y) (sample mem canonical_field x y)"
  have g: "is_float32 g \<and> is_finite (fmul float_2 g) \<and> no_underflow ?d g \<longrightarrow>
      valof (fmul float_2 g) = 2 * valof g \<and>
      fmul (fmul ?d (fmul float_2 g)) float_10 = fmul float_2 (fmul (fmul ?d g) float_10) \<and>
      (is_finite (fmul (fmul ?d (fmul float_2 g)) float_10) \<longrightarrow>
         is_finite (fmul (fmul ?d g) float_10) \<and>
         valof (fmul (fmul ?d (fmul float_2 g)) float_10) = 2 * valof (fmul (fmul ?d g) float_10))"
    for g
    using gradient_double_value [of g ?d] by blast
  let ?gx = "\<lambda>m. fmul (fmul (fsub (sample m warped_live_field x y) (sample m canonical_field x y))
      (sample m live_gradient_x_field x y)) float_10"
  let ?gy = "\<lambda>m. fmul (fmul (fsub (sample m warped_live_field x y) (sample m canonical_field x y))
      (sample m live_gradient_y_field x y)) float_10"
  let ?en = "\<lambda>m. fmul (fmul float_half
      (fsub (sample m warped_live_field x y) (sample m canonical_field x y)))
      (fsub (sample m warped_live_field x y) (sample m canonical_field x y))"
  let ?run = "\<lambda>m. m(data_gradient_x := ?gx m, data_gradient_y := ?gy m,
      local_energy_contribution := ?en m)"
  have run: "data_term_at_location warped_live_field canonical_field x y
      live_gradient_x_field live_gradient_y_field
      data_gradient_x data_gradient_y local_energy_contribution m = Some (?run m)" for m
    by (rule data_term_at_location_in_bounds [OF assms(1-4)])
  define m1 where "m1 = ?run mem"
  define m2 where "m2 = ?run mem2"
  have old: "m1 data_gradient_x = fmul (fmul ?d (sample mem live_gradient_x_field x y)) float_10"
    "m1 data_gradient_y = fmul (fmul ?d (sample mem live_gradient_y_field x y)) float_10"
    "m1 local_energy_contribution = ?en mem"
    using assms(9) by (simp_all add: m1_def)
  have new: "m2 data_gradient_x =
      fmul (fmul ?d (fmul float_2 (sample mem live_gradient_x_field x y))) float_10"
    "m2 data_gradient_y =
      fmul (fmul ?d (fmul float_2 (sample mem live_gradient_y_field x y))) float_10"
    "m2 local_energy_contribution = ?en mem"
    using assms(9) by (simp_all add: m2_def assms(5-8))
  show ?thesis
  proof (intro exI conjI)
    show "data_term_at_location warped_live_field canonical_field x y
        live_gradient_x_field live_gradient_y_field
        data_gradient_x data_gradient_y local_energy_contribution mem = Some m1"
      unfolding m1_def by (rule run)
    show "data_term_at_location warped_live_field canonical_field x y
        live_gradient_x_field live_gradient_y_field
        data_gradient_x data_gradient_y local_energy_contribution mem2 = Some m2"
      unfolding m2_def by (rule run)
    show "m2 local_energy_contribution = m1 local_energy_contribution"
      by (simp only: old new)
    show "is_float32 (sample mem live_gradient_x_field x y) \<and>
        is_finite (sample mem2 live_gradient_x_field x y) \<and>
        no_underflow ?d (sample mem live_gradient_x_field x y) \<longrightarrow>
        valof (sample mem2 live_gradient_x_field x y) =
          2 * valof (sample mem live_gradient_x_field x y) \<and>
        m2 data_gradient_x = fmul float_2 (m1 data_gradient_x) \<and>
        (is_finite (m2 data_gradient_x) \<longrightarrow>
           is_finite (m1 data_gradient_x) \<and>
           valof (m2 data_gradient_x) = 2 * valof (m1 data_gradient_x))"
      unfolding old new assms(7) by (rule g)
    show "is_float32 (sample mem live_gradient_y_field x y) \<and>
        is_finite (sample mem2 live_gradient_y_field x y) \<and>
        no_underflow ?d (sample mem live_gradient_y_field x y) \<longrightarrow>
        valof (sample mem2 live_gradient_y_field x y) =
          2 * valof (sample mem live_gradient_y_field x y) \<and>
        m2 data_gradient_y = fmul float_2 (m1 data_gradient_y) \<and>
        (is_finite (m2 data_gradient_y) \<longrightarrow>
           is_finite (m1 data_gradient_y) \<and>
           valof (m2 data_gradient_y) = 2 * valof (m1 data_gradient_y))"
      unfolding old new assms(8) by (rule g)
  qed
qed

theorem doubled_gradient_doubles_output_witness:
  "in_bounds (ex_field 0) 2 1 \<and> in_bounds (ex_field 1) 2 1 \<and>
   in_bounds (ex_field 2) 2 1 \<and> in_bounds (ex_field 3) 2 1 \<and>
   sample ex_mem_doubled (ex_field 0) 2 1 = sample ex_mem (ex_field 0) 2 1 \<and>
   sample ex_mem_doubled (ex_field 1) 2 1 = sample ex_mem (ex_field 1) 2 1 \<and>
   sample ex_mem_doubled (ex_field 2) 2 1 = fmul float_2 (sample ex_mem (ex_field 2) 2 1) \<and>
   sample ex_mem_doubled (ex_field 3) 2 1 = fmul float_2 (sample ex_mem (ex_field 3) 2 1) \<and>
   distinct [Var 7, Var 8, Var 9] \<and>
   is_float32 (sample ex_mem (ex_field 2) 2 1) \<and>
   is_float32 (sample ex_mem (ex_field 3) 2 1) \<and>
   is_finite (sample ex_mem_doubled (ex_field 2) 2 1) \<and>
   is_finite (sample ex_mem_doubled (ex_field 3) 2 1) \<and>
   no_underflow (fsub (sample ex_mem (ex_field 0) 2 1) (sample ex_mem (ex_field 1) 2 1))
     (sample ex_mem (ex_field 2) 2 1) \<and>
   no_underflow (fsub (sample ex_mem (ex_field 0) 2 1) (sample ex_mem (ex_field 1) 2 1))
     (sample ex_mem (ex_field 3) 2 1) \<and>
   (\<exists>mem' mem2'.
      data_term_at_location (ex_field 0) (ex_field 1) 2 1 (ex_field 2) (ex_field 3)
        (Var 7) (Var 8) (Var 9) ex_mem = Some mem' \<and>
      data_term_at_location (ex_field 0) (ex_field 1) 2 1 (ex_field 2) (ex_field 3)
        (Var 7) (Var 8) (Var 9) ex_mem_doubled = Some mem2' \<and>
      mem2' (Var 9) = mem' (Var 9) \<and>
      mem' (Var 7) = float_10 \<and> mem2' (Var 7) = Finite False 10485760 (- 19) \<and>
      is_finite (mem2' (Var 7)) \<and> is_finite (mem2' (Var 8)) \<and>
      mem2' (Var 7) = fmul float_2 (mem' (Var 7)) \<and>
      valof (mem2' (Var 7)) = 2 * valof (mem' (Var 7)) \<and>
      mem2' (Var 8) = fmul float_2 (mem' (Var 8)) \<and>
      valof (mem2' (Var 8)) = 2 * valof (mem' (Var 8)))"
proof -
  have inb: "in_bounds (ex_field 0) 2 1" "in_bounds (ex_field 1) 2 1"
    "in_bounds (ex_field 2) 2 1" "in_bounds (ex_field 3) 2 1"
    by (simp_all add: model_eval)
  have same: "sample ex_mem_doubled (ex_field 0) 2 1 = sample ex_mem (ex_field 0) 2 1"
    "sample ex_mem_doubled (ex_field 1) 2 1 = sample ex_mem (ex_field 1) 2 1"
    by (simp_all add: model_eval)
  have dbl: "sample ex_mem_doubled (ex_field 2) 2 1 = fmul float_2 (sample ex_mem (ex_field 2) 2 1)"
    "sample ex_mem_doubled (ex_field 3) 2 1 = fmul float_2 (sample ex_mem (ex_field 3) 2 1)"
    by (simp_all add: model_eval float_eval)
  have dist: "distinct [Var 7, Var 8, Var 9]"
    by simp
  have hx: "is_float32 (sample ex_mem (ex_field 2) 2 1)"
    "is_finite (sample ex_mem_doubled (ex_field 2) 2 1)"
    "no_underflow (fsub (sample ex_mem (ex_field 0) 2 1) (sample ex_mem (ex_field 1) 2 1))
       (sample ex_mem (ex_field 2) 2 1)"
    by (simp_all add: model_eval float_eval power_int_minus)
  have hy: "is_float32 (sample ex_mem (ex_field 3) 2 1)"
    "is_finite (sample ex_mem_doubled (ex_field 3) 2 1)"
    "no_underflow (fsub (sample ex_mem (ex_field 0) 2 1) (sample ex_mem (ex_field 1) 2 1))
       (sample ex_mem (ex_field 3) 2 1)"
    by (simp_all add: model_eval float_eval power_int_minus)
  have run1: "data_term_at_location (ex_field 0) (ex_field 1) 2 1 (ex_field 2) (ex_field 3)
      (Var 7) (Var 8) (Var 9) ex_mem = Some m \<Longrightarrow> m (Var 7) = float_10" for m
    by (auto simp add: data_term_at_location_def coeff_ref_def model_eval float_eval)
  have run2: "data_term_at_location (ex_field 0) (ex_field 1) 2 1 (ex_field 2) (ex_field 3)
      (Var 7) (Var 8) (Var 9) ex_mem_doubled = Some m \<Longrightarrow>
      m (Var 7) = Finite False 10485760 (- 19) \<and> is_finite (m (Var 7)) \<and> is_finite (m (Var 8))" for m
    by (auto simp add: data_term_at_location_def coeff_ref_def model_eval float_eval)
  from doubled_gradient_doubles_output [OF inb same dbl dist] hx hy run1 run2
  have "\<exists>mem' mem2'.
      data_term_at_location (ex_field 0) (ex_field 1) 2 1 (ex_field 2) (ex_field 3)
        (Var 7) (Var 8) (Var 9) ex_mem = Some mem' \<and>
      data_term_at_location (ex_field 0) (ex_field 1) 2 1 (ex_field 2) (ex_field 3)
        (Var 7) (Var 8) (Var 9) ex_mem_doubled = Some mem2' \<and>
      mem2' (Var 9) = mem' (Var 9) \<and>
      mem' (Var 7) = float_10 \<and> mem2' (Var 7) = Finite False 10485760 (- 19) \<and>
      is_finite (mem2' (Var 7)) \<and> is_finite (mem2' (Var 8)) \<and>
      mem2' (Var 7) = fmul float_2 (mem' (Var 7)) \<and>
      valof (mem2' (Var 7)) = 2 * valof (mem' (Var 7)) \<and>
      mem2' (Var 8) = fmul float_2 (mem' (Var 8)) \<and>
      valof (mem2' (Var 8)) = 2 * valof (mem' (Var 8))"
    by blast
  with inb same dbl dist hx hy show ?thesis
    by blast
qed

text \<open>
  The claim as stated fails by underflow: with the difference \<open>3 * 2\<^sup>-\<^sup>7\<^sup>5\<close> and the x
  gradient \<open>2\<^sup>-\<^sup>7\<^sup>5\<close>, doubled to \<open>2\<^sup>-\<^sup>7\<^sup>4\<close>, the output goes from \<open>20 * 2\<^sup>-\<^sup>1\<^sup>4\<^sup>9\<close> to
  \<open>30 * 2\<^sup>-\<^sup>1\<^sup>4\<^sup>9\<close>: the product \<open>3 * 2\<^sup>-\<^sup>1\<^sup>5\<^sup>0\<close> is rounded to \<open>2 * 2\<^sup>-\<^sup>1\<^sup>4\<^sup>9\<close> before it is
  scaled, and its double \<open>3 * 2\<^sup>-\<^sup>1\<^sup>4\<^sup>9\<close> is not rounded at all. It fails by overflow too.
  With the difference \<open>2\<^sup>-\<^sup>2\<^sup>0\<close> and the x gradient \<open>2\<^sup>1\<^sup>2\<^sup>7\<close>, whose double is \<open>+\<infinity>\<close>, the
  output goes from \<open>10 * 2\<^sup>1\<^sup>0\<^sup>7\<close> to \<open>+\<infinity>\<close>. With the difference \<open>2\<^sup>6\<^sup>0\<close> and the x gradient
  \<open>2\<^sup>6\<^sup>4\<close>, doubled exactly to \<open>2\<^sup>6\<^sup>5\<close>, the output goes from the finite \<open>10 * 2\<^sup>1\<^sup>2\<^sup>4\<close> to
  \<open>+\<infinity>\<close>, while the energy stays \<open>2\<^sup>1\<^sup>1\<^sup>9\<close>.
\<close>

theorem doubled_gradient_counterexample:
  "in_bounds (ex_field 0) 2 1 \<and> in_bounds (ex_field 1) 2 1 \<and>
   in_bounds (ex_field 2) 2 1 \<and> in_bounds (ex_field 3) 2 1 \<and>
   sample ex_mem_tiny_doubled (ex_field 0) 2 1 = sample ex_mem_tiny (ex_field 0) 2 1 \<and>
   sample ex_mem_tiny_doubled (ex_field 1) 2 1 = sample ex_mem_tiny (ex_field 1) 2 1 \<and>
   sample ex_mem_tiny_doubled (ex_field 2) 2 1 = fmul float_2 (sample ex_mem_tiny (ex_field 2) 2 1) \<and>
   sample ex_mem_tiny_doubled (ex_field 3) 2 1 = fmul float_2 (sample ex_mem_tiny (ex_field 3) 2 1) \<and>
   is_float32 (sample ex_mem_tiny (ex_field 0) 2 1) \<and>
   is_float32 (sample ex_mem_tiny (ex_field 2) 2 1) \<and>
   is_float32 (sample ex_mem_tiny_doubled (ex_field 2) 2 1) \<and>
   valof (sample ex_mem_tiny_doubled (ex_field 2) 2 1) =
     2 * valof (sample ex_mem_tiny (ex_field 2) 2 1) \<and>
   py_data_term_at_location (ex_field 0) (ex_field 1) 2 1 (ex_field 2) (ex_field 3) ex_mem_tiny =
     Some ((Finite False 20 (- 149), float_0), Finite False 2 (- 149)) \<and>
   py_data_term_at_location (ex_field 0) (ex_field 1) 2 1 (ex_field 2) (ex_field 3)
     ex_mem_tiny_doubled =
     Some ((Finite False 30 (- 149), float_0), Finite False 2 (- 149)) \<and>
   fmul float_2 (Finite False 20 (- 149)) = Finite False 40 (- 149) \<and>
   Finite False 30 (- 149) \<noteq> fmul float_2 (Finite False 20 (- 149)) \<and>
   valof (Finite False 30 (- 149)) \<noteq> 2 * valof (Finite False 20 (- 149)) \<and>
   sample ex_mem_steep_doubled (ex_field 0) 2 1 = sample ex_mem_steep (ex_field 0) 2 1 \<and>
   sample ex_mem_steep_doubled (ex_field 1) 2 1 = sample ex_mem_steep (ex_field 1) 2 1 \<and>
   sample ex_mem_steep_doubled (ex_field 2) 2 1 = fmul float_2 (sample ex_mem_steep (ex_field 2) 2 1) \<and>
   sample ex_mem_steep_doubled (ex_field 3) 2 1 = fmul float_2 (sample ex_mem_steep (ex_field 3) 2 1) \<and>
   is_float32 (sample ex_mem_steep (ex_field 0) 2 1) \<and>
   is_float32 (sample ex_mem_steep (ex_field 2) 2 1) \<and>
   py_data_term_at_location (ex_field 0) (ex_field 1) 2 1 (ex_field 2) (ex_field 3) ex_mem_steep =
     Some ((Finite False 10485760 87, float_0), Finite False 8388608 (- 64)) \<and>
   py_data_term_at_location (ex_field 0) (ex_field 1) 2 1 (ex_field 2) (ex_field 3)
     ex_mem_steep_doubled =
     Some ((Infinity False, float_0), Finite False 8388608 (- 64)) \<and>
   fmul float_2 (Finite False 10485760 87) = Finite False 10485760 88 \<and>
   sample ex_mem_large_doubled (ex_field 0) 2 1 = sample ex_mem_large (ex_field 0) 2 1 \<and>
   sample ex_mem_large_doubled (ex_field 1) 2 1 = sample ex_mem_large (ex_field 1) 2 1 \<and>
   sample ex_mem_large_doubled (ex_field 2) 2 1 = fmul float_2 (sample ex_mem_large (ex_field 2) 2 1) \<and>
   sample ex_mem_large_doubled (ex_field 3) 2 1 = fmul float_2 (sample ex_mem_large (ex_field 3) 2 1) \<and>
   is_float32 (sample ex_mem_large (ex_field 0) 2 1) \<and>
   is_float32 (sample ex_mem_large (ex_field 2) 2 1) \<and>
   is_finite (sample ex_mem_large_doubled (ex_field 2) 2 1) \<and>
   valof (sample ex_mem_large_doubled (ex_field 2) 2 1) =
     2 * valof (sample ex_mem_large (ex_field 2) 2 1) \<and>
   py_data_term_at_location (ex_field 0) (ex_field 1) 2 1 (ex_field 2) (ex_field 3) ex_mem_large =
     Some ((Finite False 10485760 104, float_0), Finite False 8388608 96) \<and>
   py_data_term_at_location (ex_field 0) (ex_field 1) 2 1 (ex_field 2) (ex_field 3)
     ex_mem_large_doubled =
     Some ((Infinity False, float_0), Finite False 8388608 96) \<and>
   is_finite (Finite False 10485760 104) \<and> \<not> is_finite (Infinity False)"
  by (simp add: py_data_term_at_location_def data_term_at_location_def coeff_ref_def
      model_eval float_eval power_int_minus)

end
